theory Spec2Isabelle
  imports Main
begin

section \<open>JavaScript containers\<close>

text \<open>
  A JavaScript \<^verbatim>\<open>Map\<close> iterates in insertion order and \<^verbatim>\<open>set\<close> on a present key
  keeps the key's position; it is an association list with distinct keys. A JavaScript
  \<^verbatim>\<open>Set\<close> is a list without duplicates, in insertion order.
\<close>

fun jsmap_set :: "('k \<times> 'v) list \<Rightarrow> 'k \<Rightarrow> 'v \<Rightarrow> ('k \<times> 'v) list" where
  "jsmap_set [] k v = [(k, v)]"
| "jsmap_set ((k', v') # kvs) k v =
     (if k' = k then (k, v) # kvs else (k', v') # jsmap_set kvs k v)"

definition jsmap_has :: "('k \<times> 'v) list \<Rightarrow> 'k \<Rightarrow> bool" where
  "jsmap_has m k = (map_of m k \<noteq> None)"

definition jsmap_delete :: "('k \<times> 'v) list \<Rightarrow> 'k \<Rightarrow> ('k \<times> 'v) list" where
  "jsmap_delete m k = filter (\<lambda>kv. fst kv \<noteq> k) m"

definition jsmap_values :: "('k \<times> 'v) list \<Rightarrow> 'v list" where
  "jsmap_values m = map snd m"

definition jsset_add :: "'a list \<Rightarrow> 'a \<Rightarrow> 'a list" where
  "jsset_add xs x = (if x \<in> set xs then xs else xs @ [x])"

definition jsset_delete :: "'a list \<Rightarrow> 'a \<Rightarrow> 'a list" where
  "jsset_delete xs x = filter (\<lambda>y. y \<noteq> x) xs"

section \<open>Signaling envelopes\<close>

text \<open>
  The seven values of \<^verbatim>\<open>type\<close>; what \<^verbatim>\<open>JSON.parse\<close> returns may carry any other
  string.
\<close>

datatype signal_type =
  Offer | Answer | IceCandidate | JoinChannel | LeaveChannel | PeerJoined | PeerLeft
  | OtherType string

text \<open>
  The interface \<^verbatim>\<open>WebRTCSignal\<close>: every field but \<^verbatim>\<open>type\<close> is optional. The
  payload \<^verbatim>\<open>data\<close> has type \<^verbatim>\<open>any\<close>, here a type parameter.
\<close>

record 'a WebRTCSignal =
  msg_type :: signal_type
  msg_from :: "string option"
  msg_to :: "string option"
  msg_channelId :: "string option"
  msg_userId :: "string option"
  msg_data :: "'a option"

text \<open>JavaScript truthiness of an optional string: defined and not empty.\<close>

definition truthy :: "string option \<Rightarrow> bool" where
  "truthy s = (case s of None \<Rightarrow> False | Some x \<Rightarrow> x \<noteq> [])"

section \<open>The signaling coordinator (WebSocket server)\<close>

type_synonym socket = nat

datatype readyState = CONNECTING | OPEN | CLOSING | CLOSED

record conn =
  ws :: socket
  userId :: string

text \<open>
  \<^verbatim>\<open>connectedUsers\<close> is keyed by the socket object (\<^verbatim>\<open>ws as any\<close>), \<^verbatim>\<open>channelPeers\<close>
  by the channel identifier.
\<close>

record coordinator =
  connectedUsers :: "(socket \<times> conn) list"
  channelPeers :: "(string \<times> string list) list"

definition emptyCoordinator :: coordinator where
  "emptyCoordinator = \<lparr>connectedUsers = [], channelPeers = []\<rparr>"

text \<open>\<^verbatim>\<open>Array.from(connectedUsers.values()).find(conn => conn.userId === peerId)\<close>\<close>

definition findConnection :: "coordinator \<Rightarrow> string \<Rightarrow> conn option" where
  "findConnection st peerId =
     find (\<lambda>c. userId c = peerId) (jsmap_values (connectedUsers st))"

text \<open>
  The guarded send: the connection was found and its socket reports \<^verbatim>\<open>OPEN\<close>. The
  ready state of every socket is given by the environment, \<open>rs\<close>.
\<close>

definition sendIfOpen ::
  "(socket \<Rightarrow> readyState) \<Rightarrow> conn option \<Rightarrow> 'a WebRTCSignal \<Rightarrow> (socket \<times> 'a WebRTCSignal) list"
where
  "sendIfOpen rs c m =
     (case c of
        None \<Rightarrow> []
      | Some peerConnection \<Rightarrow>
          if rs (ws peerConnection) = OPEN then [(ws peerConnection, m)] else [])"

definition peerJoined :: "string \<Rightarrow> string \<Rightarrow> 'a WebRTCSignal" where
  "peerJoined u c =
     \<lparr>msg_type = PeerJoined, msg_from = Some u, msg_to = None, msg_channelId = Some c,
      msg_userId = None, msg_data = None\<rparr>"

definition peerLeft :: "string \<Rightarrow> string \<Rightarrow> 'a WebRTCSignal" where
  "peerLeft u c =
     \<lparr>msg_type = PeerLeft, msg_from = Some u, msg_to = None, msg_channelId = Some c,
      msg_userId = None, msg_data = None\<rparr>"

text \<open>\<^verbatim>\<open>channelPeers.get(channelId)!\<close>\<close>

definition members :: "coordinator \<Rightarrow> string \<Rightarrow> string list" where
  "members st c = (case map_of (channelPeers st) c of None \<Rightarrow> [] | Some s \<Rightarrow> s)"

text \<open>
  The \<^verbatim>\<open>join-channel\<close> branch, once \<^verbatim>\<open>userId && channelId\<close> holds: first the
  binding of the socket and the membership are written, then the members are notified.
\<close>

definition registerJoin :: "socket \<Rightarrow> string \<Rightarrow> string \<Rightarrow> coordinator \<Rightarrow> coordinator" where
  "registerJoin sock u c st =
     (let st1 = st\<lparr>connectedUsers := jsmap_set (connectedUsers st) sock \<lparr>ws = sock, userId = u\<rparr>\<rparr>;
          st2 = (if \<not> jsmap_has (channelPeers st1) c
                 then st1\<lparr>channelPeers := jsmap_set (channelPeers st1) c []\<rparr> else st1)
      in st2\<lparr>channelPeers := jsmap_set (channelPeers st2) c (jsset_add (members st2 c) u)\<rparr>)"

definition notifyJoined ::
  "(socket \<Rightarrow> readyState) \<Rightarrow> string \<Rightarrow> string \<Rightarrow> coordinator \<Rightarrow> (socket \<times> 'a WebRTCSignal) list"
where
  "notifyJoined rs u c st =
     concat (map (\<lambda>peerId.
               if peerId \<noteq> u
               then sendIfOpen rs (findConnection st peerId) (peerJoined u c)
               else [])
             (members st c))"

definition joinChannel ::
  "(socket \<Rightarrow> readyState) \<Rightarrow> socket \<Rightarrow> string \<Rightarrow> string \<Rightarrow> coordinator
     \<Rightarrow> coordinator \<times> (socket \<times> 'a WebRTCSignal) list"
where
  "joinChannel rs sock u c st =
     (let st' = registerJoin sock u c st in (st', notifyJoined rs u c st'))"

text \<open>
  The \<^verbatim>\<open>leave-channel\<close> branch, once
  \<^verbatim>\<open>userId && channelId && channelPeers.has(channelId)\<close> holds.
\<close>

definition notifyLeft ::
  "(socket \<Rightarrow> readyState) \<Rightarrow> string \<Rightarrow> string \<Rightarrow> coordinator \<Rightarrow> (socket \<times> 'a WebRTCSignal) list"
where
  "notifyLeft rs u c st =
     concat (map (\<lambda>peerId. sendIfOpen rs (findConnection st peerId) (peerLeft u c))
             (members st c))"

definition leaveChannel ::
  "(socket \<Rightarrow> readyState) \<Rightarrow> string \<Rightarrow> string \<Rightarrow> coordinator
     \<Rightarrow> coordinator \<times> (socket \<times> 'a WebRTCSignal) list"
where
  "leaveChannel rs u c st =
     (let st' = st\<lparr>channelPeers := jsmap_set (channelPeers st) c (jsset_delete (members st c) u)\<rparr>
      in (st', notifyLeft rs u c st'))"

text \<open>
  The body of the \<^verbatim>\<open>ws.on('message')\<close> handler of the socket \<open>sock\<close>, between
  \<^verbatim>\<open>JSON.parse\<close> and \<^verbatim>\<open>JSON.stringify\<close>. The argument is what \<^verbatim>\<open>JSON.parse\<close> returned,
  \<open>None\<close> when it throws (the handler catches and logs). The result is the new state
  and, for every \<^verbatim>\<open>ws.send\<close>, the socket and the value that \<^verbatim>\<open>JSON.stringify\<close> is
  applied to: the object built by the branch, or in the relay branch the parsed message.
  It is not the text that was received.
\<close>

definition onMessage ::
  "(socket \<Rightarrow> readyState) \<Rightarrow> socket \<Rightarrow> 'a WebRTCSignal option \<Rightarrow> coordinator
     \<Rightarrow> coordinator \<times> (socket \<times> 'a WebRTCSignal) list"
where
  "onMessage rs sock parsed st =
     (case parsed of
        None \<Rightarrow> (st, [])
      | Some message \<Rightarrow>
          if msg_type message = JoinChannel then
            (if truthy (msg_userId message) \<and> truthy (msg_channelId message)
             then joinChannel rs sock (the (msg_userId message)) (the (msg_channelId message)) st
             else (st, []))
          else if msg_type message = LeaveChannel then
            (if truthy (msg_userId message) \<and> truthy (msg_channelId message)
                \<and> jsmap_has (channelPeers st) (the (msg_channelId message))
             then leaveChannel rs (the (msg_userId message)) (the (msg_channelId message)) st
             else (st, []))
          else if truthy (msg_to message) then
            (st, sendIfOpen rs (findConnection st (the (msg_to message))) message)
          else (st, []))"

text \<open>
  The handler itself, on the data received. \<^verbatim>\<open>JSON.parse\<close> and \<^verbatim>\<open>JSON.stringify\<close> are
  the platform's, and parameters here: the data is parsed, and what each \<^verbatim>\<open>ws.send\<close>
  writes is the \<^verbatim>\<open>JSON.stringify\<close> of its value. A relayed envelope is therefore
  written as \<^verbatim>\<open>JSON.stringify(JSON.parse(data))\<close>, which need not be the text received.
\<close>

definition onData ::
  "(string \<Rightarrow> 'a WebRTCSignal option) \<Rightarrow> ('a WebRTCSignal \<Rightarrow> string) \<Rightarrow> (socket \<Rightarrow> readyState)
     \<Rightarrow> socket \<Rightarrow> string \<Rightarrow> coordinator \<Rightarrow> coordinator \<times> (socket \<times> string) list"
where
  "onData JSON_parse JSON_stringify rs sock data st =
     (case onMessage rs sock (JSON_parse data) st of
        (st', out) \<Rightarrow> (st', map (\<lambda>x. (fst x, JSON_stringify (snd x))) out))"

text \<open>
  The \<^verbatim>\<open>ws.on('close')\<close> handler: for every channel that holds the socket's identity,
  in the order of \<^verbatim>\<open>channelPeers\<close>, remove it and notify the remaining members; then
  drop the binding.
\<close>

fun closeChannels ::
  "(socket \<Rightarrow> readyState) \<Rightarrow> coordinator \<Rightarrow> string \<Rightarrow> (string \<times> string list) list
     \<Rightarrow> (string \<times> string list) list \<times> (socket \<times> 'a WebRTCSignal) list"
where
  "closeChannels rs st u [] = ([], [])"
| "closeChannels rs st u ((channelId, peers) # rest) =
     (let (rest', out) = closeChannels rs st u rest
      in if u \<in> set peers
         then ((channelId, jsset_delete peers u) # rest',
               concat (map (\<lambda>peerId. sendIfOpen rs (findConnection st peerId) (peerLeft u channelId))
                       (jsset_delete peers u)) @ out)
         else ((channelId, peers) # rest', out))"

definition onClose ::
  "(socket \<Rightarrow> readyState) \<Rightarrow> socket \<Rightarrow> coordinator
     \<Rightarrow> coordinator \<times> (socket \<times> 'a WebRTCSignal) list"
where
  "onClose rs sock st =
     (case map_of (connectedUsers st) sock of
        None \<Rightarrow> (st, [])
      | Some userConnection \<Rightarrow>
          (let (cp, out) = closeChannels rs st (userId userConnection) (channelPeers st)
           in (\<lparr>connectedUsers = jsmap_delete (connectedUsers st) sock, channelPeers = cp\<rparr>, out)))"

section \<open>Well-formed coordinator states\<close>

text \<open>
  What the two JavaScript containers guarantee by construction: the keys of a \<^verbatim>\<open>Map\<close>
  are distinct, a \<^verbatim>\<open>Set\<close> has no duplicates, and the value stored for a socket is the
  object \<^verbatim>\<open>{ ws, userId }\<close> built from that very socket.
\<close>

definition wf_coordinator :: "coordinator \<Rightarrow> bool" where
  "wf_coordinator st =
     (distinct (map fst (connectedUsers st))
      \<and> list_all (\<lambda>kv. ws (snd kv) = fst kv) (connectedUsers st)
      \<and> distinct (map fst (channelPeers st))
      \<and> list_all (\<lambda>kv. distinct (snd kv)) (channelPeers st))"

section \<open>Envelopes written by the client hook, and example states\<close>

text \<open>What \<^verbatim>\<open>useWebRTC.joinChannel\<close> and \<^verbatim>\<open>useWebRTC.leaveChannel\<close> write to the socket.\<close>

definition joinMsg :: "string \<Rightarrow> string \<Rightarrow> 'a WebRTCSignal" where
  "joinMsg u c =
     \<lparr>msg_type = JoinChannel, msg_from = None, msg_to = None, msg_channelId = Some c,
      msg_userId = Some u, msg_data = None\<rparr>"

definition leaveMsg :: "string \<Rightarrow> string \<Rightarrow> 'a WebRTCSignal" where
  "leaveMsg u c =
     \<lparr>msg_type = LeaveChannel, msg_from = None, msg_to = None, msg_channelId = Some c,
      msg_userId = Some u, msg_data = None\<rparr>"

definition allOpen :: "socket \<Rightarrow> readyState" where
  "allOpen s = OPEN"

text \<open>Alice on socket 1 and Bob on socket 2, both in the channel general.\<close>

definition twoUsers :: coordinator where
  "twoUsers =
     \<lparr>connectedUsers = [(1, \<lparr>ws = 1, userId = ''alice''\<rparr>), (2, \<lparr>ws = 2, userId = ''bob''\<rparr>)],
      channelPeers = [(''general'', [''alice'', ''bob''])]\<rparr>"

text \<open>An offer to Bob, written to socket 1 (Alice's), that names another sender.\<close>

definition spoofedOffer :: "nat WebRTCSignal" where
  "spoofedOffer =
     \<lparr>msg_type = Offer, msg_from = Some ''mallory'', msg_to = Some ''bob'',
      msg_channelId = None, msg_userId = None, msg_data = Some 7\<rparr>"

text \<open>Alice joins the channel general on socket 1 and then again on socket 3.\<close>

definition aliceTwice :: coordinator where
  "aliceTwice =
     fst (onMessage allOpen 3 (Some (joinMsg ''alice'' ''general'' :: nat WebRTCSignal))
       (fst (onMessage allOpen 1 (Some (joinMsg ''alice'' ''general'' :: nat WebRTCSignal))
          emptyCoordinator)))"

definition offerToAlice :: "nat WebRTCSignal" where
  "offerToAlice =
     \<lparr>msg_type = Offer, msg_from = Some ''bob'', msg_to = Some ''alice'',
      msg_channelId = None, msg_userId = None, msg_data = Some 1\<rparr>"

text \<open>
  Bob joins again on socket 4 while socket 2 still holds his first binding; socket 2 is
  closing and every other socket is open.
\<close>

definition bobTwice :: coordinator where
  "bobTwice = fst (onMessage allOpen 4 (Some (joinMsg ''bob'' ''general'' :: nat WebRTCSignal)) twoUsers)"

definition closingTwo :: "socket \<Rightarrow> readyState" where
  "closingTwo s = (if s = 2 then CLOSING else OPEN)"

text \<open>A \<^verbatim>\<open>join-channel\<close> envelope without \<^verbatim>\<open>userId\<close> that carries \<^verbatim>\<open>to\<close>.\<close>

definition joinWithTo :: "nat WebRTCSignal" where
  "joinWithTo =
     \<lparr>msg_type = JoinChannel, msg_from = Some ''alice'', msg_to = Some ''bob'',
      msg_channelId = Some ''general'', msg_userId = None, msg_data = Some 3\<rparr>"


text \<open>
  Stand-ins for \<^verbatim>\<open>JSON.parse\<close> and \<^verbatim>\<open>JSON.stringify\<close> on two texts: the text that
  \<open>wireStringify\<close> gives for an envelope is not the text that \<open>wireParse\<close> read it from.
\<close>

definition wireParse :: "string \<Rightarrow> nat WebRTCSignal option" where
  "wireParse data =
     (if data = ''offer to alice, as sent'' then Some offerToAlice
      else if data = ''offer to bob, as sent'' then Some spoofedOffer
      else None)"

definition wireStringify :: "nat WebRTCSignal \<Rightarrow> string" where
  "wireStringify m =
     (if m = offerToAlice then ''offer to alice, stringified''
      else if m = spoofedOffer then ''offer to bob, stringified''
      else ''another envelope'')"


section \<open>The peer mesh session (client)\<close>

subsection \<open>Browser objects\<close>

text \<open>
  The objects of the browser that the session holds. A \<^verbatim>\<open>MediaStreamTrack\<close> is known by
  its identity and its kind; a \<^verbatim>\<open>MediaStream\<close> is the list of its tracks.
\<close>

datatype track_kind = Audio | Video

record MediaStreamTrack =
  track_id :: nat
  kind :: track_kind

type_synonym MediaStream = "MediaStreamTrack list"

text \<open>
  The payload \<^verbatim>\<open>data\<close> of the client's envelopes: a session description, which names
  its type, the identity that created it and the connection object it was created on, or
  an ICE candidate, which names the identity and the connection that gathered it.
\<close>

datatype sdp_type = SdpOffer | SdpAnswer

datatype payload =
    Description sdp_type string nat
  | Candidate string nat

record RTCRtpSender =
  track :: "MediaStreamTrack option"

datatype channel_state = Connecting | Open | Closing | Closed

record RTCDataChannel =
  label :: string
  dc_readyState :: channel_state
  dc_sent :: "string list"

text \<open>
  An \<^verbatim>\<open>RTCPeerConnection\<close>, with the \<^verbatim>\<open>peerId\<close> that its handlers close over.
\<close>

record RTCPeerConnection =
  pc_peerId :: string
  localDescription :: "payload option"
  remoteDescription :: "payload option"
  remoteCandidates :: "payload list"
  senders :: "RTCRtpSender list"
  connectionClosed :: bool

definition newPeerConnection :: "string \<Rightarrow> RTCPeerConnection" where
  "newPeerConnection peerId =
     \<lparr>pc_peerId = peerId, localDescription = None, remoteDescription = None,
      remoteCandidates = [], senders = [], connectionClosed = False\<rparr>"

text \<open>\<^verbatim>\<open>peerConnection.addTrack(track, stream)\<close>: one more sender, carrying the track.\<close>

definition addTrack :: "MediaStreamTrack \<Rightarrow> RTCPeerConnection \<Rightarrow> RTCPeerConnection" where
  "addTrack t pc = pc\<lparr>senders := senders pc @ [\<lparr>track = Some t\<rparr>]\<rparr>"

definition addTracks :: "MediaStream \<Rightarrow> RTCPeerConnection \<Rightarrow> RTCPeerConnection" where
  "addTracks stream pc = fold addTrack stream pc"

definition closePc :: "RTCPeerConnection \<Rightarrow> RTCPeerConnection" where
  "closePc pc = pc\<lparr>connectionClosed := True\<rparr>"

text \<open>
  \<^verbatim>\<open>setRemoteDescription\<close> and \<^verbatim>\<open>addIceCandidate\<close> return promises; \<open>None\<close> is a
  rejected one. Of the browser's checks only these are kept: a connection that has no
  description yet takes an offer; a connection whose local description is an offer takes
  an answer; a candidate needs a remote description.
\<close>

definition setRemoteDescription :: "payload option \<Rightarrow> RTCPeerConnection \<Rightarrow> RTCPeerConnection option" where
  "setRemoteDescription d pc =
     (case d of
        Some (Description SdpOffer c r) \<Rightarrow>
          if localDescription pc = None \<and> remoteDescription pc = None
          then Some (pc\<lparr>remoteDescription := d\<rparr>) else None
      | Some (Description SdpAnswer c r) \<Rightarrow>
          (case localDescription pc of
             Some (Description SdpOffer c' r') \<Rightarrow> Some (pc\<lparr>remoteDescription := d\<rparr>)
           | _ \<Rightarrow> None)
      | _ \<Rightarrow> None)"

definition addIceCandidate :: "payload option \<Rightarrow> RTCPeerConnection \<Rightarrow> RTCPeerConnection option" where
  "addIceCandidate d pc =
     (case d of
        Some (Candidate c r) \<Rightarrow>
          if remoteDescription pc \<noteq> None
          then Some (pc\<lparr>remoteCandidates := remoteCandidates pc @ [Candidate c r]\<rparr>) else None
      | _ \<Rightarrow> None)"

subsection \<open>The class WebRTCManager\<close>

datatype notification =
  PeerConnected string | PeerDisconnected string | MessageReceived string string

text \<open>
  The fields of the class, then the objects it has created (\<open>pcs\<close> and \<open>dcs\<close>: a
  connection or channel is named by its index, and stays there when the registry drops
  it), the tracks on which \<^verbatim>\<open>stop()\<close> was called, the envelopes written to the socket,
  the calls of the three callbacks, and the lines written by \<^verbatim>\<open>console.error\<close>.
\<close>

record WebRTCManager =
  mgr_userId :: string
  peers :: "(string \<times> nat) list"
  dataChannels :: "(string \<times> nat) list"
  localStream :: "MediaStream option"
  isVoiceEnabled :: bool
  isVideoEnabled :: bool
  pcs :: "RTCPeerConnection list"
  dcs :: "RTCDataChannel list"
  stoppedTracks :: "nat list"
  outbox :: "payload WebRTCSignal list"
  events :: "notification list"
  console :: "string list"

definition newManager :: "string \<Rightarrow> WebRTCManager" where
  "newManager u =
     \<lparr>mgr_userId = u, peers = [], dataChannels = [], localStream = None,
      isVoiceEnabled = False, isVideoEnabled = False, pcs = [], dcs = [],
      stoppedTracks = [], outbox = [], events = [], console = []\<rparr>"

text \<open>
  A method call on the object with index \<open>r\<close>: the object is replaced by its new state.
\<close>

definition updateAt :: "nat \<Rightarrow> ('a \<Rightarrow> 'a) \<Rightarrow> 'a list \<Rightarrow> 'a list" where
  "updateAt r f xs = (if r < length xs then xs[r := f (xs ! r)] else xs)"

definition updatePc :: "nat \<Rightarrow> (RTCPeerConnection \<Rightarrow> RTCPeerConnection) \<Rightarrow> WebRTCManager \<Rightarrow> WebRTCManager" where
  "updatePc r f st = st\<lparr>pcs := updateAt r f (pcs st)\<rparr>"

definition socketSend :: "payload WebRTCSignal \<Rightarrow> WebRTCManager \<Rightarrow> WebRTCManager" where
  "socketSend m st = st\<lparr>outbox := outbox st @ [m]\<rparr>"

text \<open>
  \<^verbatim>\<open>createPeerConnection\<close>: a new connection object, always, stored under \<^verbatim>\<open>peerId\<close>
  with \<^verbatim>\<open>this.peers.set\<close>.
\<close>

definition createPeerConnection :: "string \<Rightarrow> WebRTCManager \<Rightarrow> nat \<times> WebRTCManager" where
  "createPeerConnection peerId st =
     (length (pcs st),
      st\<lparr>pcs := pcs st @ [newPeerConnection peerId],
         peers := jsmap_set (peers st) peerId (length (pcs st))\<rparr>)"

definition setupDataChannel :: "nat \<Rightarrow> string \<Rightarrow> WebRTCManager \<Rightarrow> WebRTCManager" where
  "setupDataChannel dataChannel peerId st =
     st\<lparr>dataChannels := jsmap_set (dataChannels st) peerId dataChannel\<rparr>"

definition addLocalTracks :: "nat \<Rightarrow> WebRTCManager \<Rightarrow> WebRTCManager" where
  "addLocalTracks pc st =
     (case localStream st of None \<Rightarrow> st | Some stream \<Rightarrow> updatePc pc (addTracks stream) st)"

definition connectToPeer :: "string \<Rightarrow> WebRTCManager \<Rightarrow> WebRTCManager" where
  "connectToPeer peerId st =
     (let (pc, st1) = createPeerConnection peerId st;
          dataChannel = length (dcs st1);
          st2 = st1\<lparr>dcs := dcs st1 @ [\<lparr>label = ''messages'', dc_readyState = Connecting, dc_sent = []\<rparr>]\<rparr>;
          st3 = setupDataChannel dataChannel peerId st2;
          st4 = addLocalTracks pc st3;
          offer = Description SdpOffer (mgr_userId st4) pc;
          st5 = updatePc pc (\<lambda>p. p\<lparr>localDescription := Some offer\<rparr>) st4
      in socketSend
           \<lparr>msg_type = Offer, msg_from = Some (mgr_userId st5), msg_to = Some peerId,
            msg_channelId = None, msg_userId = None, msg_data = Some offer\<rparr> st5)"

text \<open>
  \<^verbatim>\<open>handleOffer\<close>: when \<^verbatim>\<open>setRemoteDescription\<close> rejects, the function stops there, with
  the new connection already in the registry.
\<close>

definition handleOffer :: "string \<Rightarrow> payload option \<Rightarrow> WebRTCManager \<Rightarrow> WebRTCManager" where
  "handleOffer sender d st =
     (let (pc, st1) = createPeerConnection sender st
      in case setRemoteDescription d (pcs st1 ! pc) of
           None \<Rightarrow> st1
         | Some p \<Rightarrow>
             (let st2 = st1\<lparr>pcs := (pcs st1)[pc := p]\<rparr>;
                  st3 = addLocalTracks pc st2;
                  answer = Description SdpAnswer (mgr_userId st3) pc;
                  st4 = updatePc pc (\<lambda>p. p\<lparr>localDescription := Some answer\<rparr>) st3
              in socketSend
                   \<lparr>msg_type = Answer, msg_from = Some (mgr_userId st4), msg_to = Some sender,
                    msg_channelId = None, msg_userId = None, msg_data = Some answer\<rparr> st4))"

definition handleAnswer :: "string \<Rightarrow> payload option \<Rightarrow> WebRTCManager \<Rightarrow> WebRTCManager" where
  "handleAnswer sender d st =
     (case map_of (peers st) sender of
        None \<Rightarrow> st
      | Some pc \<Rightarrow>
          if pc < length (pcs st)
          then (case setRemoteDescription d (pcs st ! pc) of
                  None \<Rightarrow> st
                | Some p \<Rightarrow> st\<lparr>pcs := (pcs st)[pc := p]\<rparr>)
          else st)"

definition handleIceCandidate :: "string \<Rightarrow> payload option \<Rightarrow> WebRTCManager \<Rightarrow> WebRTCManager" where
  "handleIceCandidate sender d st =
     (case map_of (peers st) sender of
        None \<Rightarrow> st
      | Some pc \<Rightarrow>
          if pc < length (pcs st)
          then (case addIceCandidate d (pcs st ! pc) of
                  None \<Rightarrow> st
                | Some p \<Rightarrow> st\<lparr>pcs := (pcs st)[pc := p]\<rparr>)
          else st)"

definition disconnectFromPeer :: "string \<Rightarrow> WebRTCManager \<Rightarrow> WebRTCManager" where
  "disconnectFromPeer peerId st =
     (let st1 = (case map_of (peers st) peerId of
                   None \<Rightarrow> st
                 | Some pc \<Rightarrow> (updatePc pc closePc st)\<lparr>peers := jsmap_delete (peers st) peerId\<rparr>);
          st2 = st1\<lparr>dataChannels := jsmap_delete (dataChannels st1) peerId\<rparr>
      in st2\<lparr>events := events st2 @ [PeerDisconnected peerId]\<rparr>)"

text \<open>
  \<^verbatim>\<open>handleSignal\<close>. Its handlers take \<^verbatim>\<open>signal.from\<close> as a string; an envelope
  without \<^verbatim>\<open>from\<close> is outside what they are typed for, and the result is \<open>None\<close>.
  The types the \<^verbatim>\<open>switch\<close> does not list fall through.
\<close>

definition handleSignal :: "payload WebRTCSignal \<Rightarrow> WebRTCManager \<Rightarrow> WebRTCManager option" where
  "handleSignal signal st =
     (case msg_type signal of
        PeerJoined \<Rightarrow> map_option (\<lambda>f. connectToPeer f st) (msg_from signal)
      | PeerLeft \<Rightarrow> map_option (\<lambda>f. disconnectFromPeer f st) (msg_from signal)
      | Offer \<Rightarrow> map_option (\<lambda>f. handleOffer f (msg_data signal) st) (msg_from signal)
      | Answer \<Rightarrow> map_option (\<lambda>f. handleAnswer f (msg_data signal) st) (msg_from signal)
      | IceCandidate \<Rightarrow> map_option (\<lambda>f. handleIceCandidate f (msg_data signal) st) (msg_from signal)
      | _ \<Rightarrow> Some st)"

text \<open>\<^verbatim>\<open>onicecandidate\<close> of the connection \<open>pc\<close>, for a candidate that is not null.\<close>

definition onicecandidate :: "nat \<Rightarrow> payload \<Rightarrow> WebRTCManager \<Rightarrow> WebRTCManager" where
  "onicecandidate pc candidate st =
     socketSend
       \<lparr>msg_type = IceCandidate, msg_from = Some (mgr_userId st),
        msg_to = Some (pc_peerId (pcs st ! pc)),
        msg_channelId = None, msg_userId = None, msg_data = Some candidate\<rparr> st"

text \<open>\<^verbatim>\<open>sendMessage\<close>: every channel of the registry that is open sends the content.\<close>

definition channelSend :: "string \<Rightarrow> RTCDataChannel \<Rightarrow> RTCDataChannel" where
  "channelSend content channel =
     (if dc_readyState channel = Open
      then channel\<lparr>dc_sent := dc_sent channel @ [content]\<rparr>
      else channel)"

definition sendMessage :: "string \<Rightarrow> WebRTCManager \<Rightarrow> WebRTCManager" where
  "sendMessage content st =
     st\<lparr>dcs := fold (\<lambda>r. updateAt r (channelSend content)) (jsmap_values (dataChannels st)) (dcs st)\<rparr>"

subsection \<open>Media\<close>

text \<open>
  The capture (\<^verbatim>\<open>getUserMedia\<close>, \<^verbatim>\<open>getDisplayMedia\<close>) is the environment's: \<open>Inl\<close> is a
  rejected promise with its error, \<open>Inr\<close> the stream. Each operation is an \<^verbatim>\<open>async\<close>
  function whose whole body is a \<^verbatim>\<open>try\<close> block; the first component of the result is
  how its promise settles, \<open>Inl\<close> for a rejection.
\<close>

definition addToAllPeers :: "MediaStream \<Rightarrow> WebRTCManager \<Rightarrow> WebRTCManager" where
  "addToAllPeers stream st = fold (\<lambda>pc. updatePc pc (addTracks stream)) (jsmap_values (peers st)) st"

definition startVoiceCall :: "string + MediaStream \<Rightarrow> WebRTCManager \<Rightarrow> (string + unit) \<times> WebRTCManager" where
  "startVoiceCall capture st =
     (case capture of
        Inl error \<Rightarrow> (Inr (), st\<lparr>console := console st @ [''Error starting voice call:'']\<rparr>)
      | Inr stream \<Rightarrow>
          (Inr (), addToAllPeers stream (st\<lparr>localStream := Some stream, isVoiceEnabled := True\<rparr>)))"

definition startVideoCall :: "string + MediaStream \<Rightarrow> WebRTCManager \<Rightarrow> (string + unit) \<times> WebRTCManager" where
  "startVideoCall capture st =
     (case capture of
        Inl error \<Rightarrow> (Inr (), st\<lparr>console := console st @ [''Error starting video call:'']\<rparr>)
      | Inr stream \<Rightarrow>
          (Inr (), addToAllPeers stream (st\<lparr>localStream := Some stream, isVideoEnabled := True\<rparr>)))"

fun findIndex :: "('a \<Rightarrow> bool) \<Rightarrow> 'a list \<Rightarrow> nat option" where
  "findIndex P [] = None"
| "findIndex P (x # xs) = (if P x then Some 0 else map_option Suc (findIndex P xs))"

definition carriesVideo :: "RTCRtpSender \<Rightarrow> bool" where
  "carriesVideo s = (case track s of None \<Rightarrow> False | Some t \<Rightarrow> kind t = Video)"

text \<open>\<^verbatim>\<open>stream.getVideoTracks()[0]\<close>, \<open>None\<close> for \<^verbatim>\<open>undefined\<close>.\<close>

definition firstVideoTrack :: "MediaStream \<Rightarrow> MediaStreamTrack option" where
  "firstVideoTrack stream = find (\<lambda>t. kind t = Video) stream"

text \<open>
  The body of the loop of \<^verbatim>\<open>startScreenShare\<close> for one connection. \<^verbatim>\<open>replaceTrack\<close>
  takes \<^verbatim>\<open>undefined\<close> as no track; \<^verbatim>\<open>addTrack(undefined, ...)\<close> throws a TypeError,
  here \<open>None\<close>.
\<close>

definition shareOn :: "MediaStreamTrack option \<Rightarrow> RTCPeerConnection \<Rightarrow> RTCPeerConnection option" where
  "shareOn v pc =
     (case findIndex carriesVideo (senders pc) of
        Some i \<Rightarrow> Some (pc\<lparr>senders := (senders pc)[i := (senders pc ! i)\<lparr>track := v\<rparr>]\<rparr>)
      | None \<Rightarrow> (case v of None \<Rightarrow> None | Some t \<Rightarrow> Some (addTrack t pc)))"


text \<open>
  The loop over \<^verbatim>\<open>this.peers\<close>: the result is the connections as the loop leaves them
  and whether it ran to its end; a throw leaves the connections already handled changed.
\<close>

fun sharePeers :: "MediaStreamTrack option \<Rightarrow> nat list \<Rightarrow> RTCPeerConnection list \<Rightarrow> RTCPeerConnection list \<times> bool" where
  "sharePeers v [] ps = (ps, True)"
| "sharePeers v (r # rs) ps =
     (if r < length ps
      then (case shareOn v (ps ! r) of
              None \<Rightarrow> (ps, False)
            | Some p \<Rightarrow> sharePeers v rs (ps[r := p]))
      else sharePeers v rs ps)"

text \<open>The block that updates the local stream.\<close>

definition updateLocalStream :: "MediaStream \<Rightarrow> WebRTCManager \<Rightarrow> WebRTCManager" where
  "updateLocalStream screenStream st =
     (case localStream st of
        None \<Rightarrow> st
      | Some stream \<Rightarrow>
          (case firstVideoTrack stream of
             None \<Rightarrow> st\<lparr>localStream := Some (fold (\<lambda>t s. jsset_add s t) screenStream stream)\<rparr>
           | Some videoTrack \<Rightarrow>
               st\<lparr>stoppedTracks := stoppedTracks st @ [track_id videoTrack],
                  localStream := Some (fold (\<lambda>t s. jsset_add s t) screenStream
                                         (jsset_delete stream videoTrack))\<rparr>))"

definition startScreenShare :: "string + MediaStream \<Rightarrow> WebRTCManager \<Rightarrow> (string + unit) \<times> WebRTCManager" where
  "startScreenShare capture st =
     (case capture of
        Inl error \<Rightarrow> (Inr (), st\<lparr>console := console st @ [''Error starting screen share:'']\<rparr>)
      | Inr screenStream \<Rightarrow>
          (case sharePeers (firstVideoTrack screenStream) (jsmap_values (peers st)) (pcs st) of
             (ps, False) \<Rightarrow>
               (Inr (), st\<lparr>pcs := ps, console := console st @ [''Error starting screen share:'']\<rparr>)
           | (ps, True) \<Rightarrow> (Inr (), updateLocalStream screenStream (st\<lparr>pcs := ps\<rparr>))))"

definition cleanup :: "WebRTCManager \<Rightarrow> WebRTCManager" where
  "cleanup st =
     (let st1 = fold (\<lambda>pc. updatePc pc closePc) (jsmap_values (peers st)) st;
          st2 = st1\<lparr>peers := [], dataChannels := []\<rparr>;
          st3 = (case localStream st2 of
                   None \<Rightarrow> st2
                 | Some stream \<Rightarrow>
                     st2\<lparr>stoppedTracks := stoppedTracks st2 @ map track_id stream,
                         localStream := None\<rparr>)
      in st3\<lparr>isVoiceEnabled := False, isVideoEnabled := False\<rparr>)"

subsection \<open>The hook useWebRTC\<close>

text \<open>
  The state of the hook: whether it was given a socket, the manager it holds (created
  when there are a socket and a user), and its two state variables.
\<close>

record useWebRTC =
  hasSocket :: bool
  hook_userId :: string
  webrtcManagerRef :: "WebRTCManager option"
  connectedPeers :: "string list"
  currentChannel :: "string option"

definition hook_joinChannel :: "string \<Rightarrow> useWebRTC \<Rightarrow> useWebRTC" where
  "hook_joinChannel channelId h =
     (case webrtcManagerRef h of
        Some mgr \<Rightarrow>
          if hasSocket h
          then h\<lparr>currentChannel := Some channelId,
                 webrtcManagerRef := Some (socketSend (joinMsg (hook_userId h) channelId) mgr)\<rparr>
          else h
      | None \<Rightarrow> h)"

definition hook_leaveChannel :: "string \<Rightarrow> useWebRTC \<Rightarrow> useWebRTC" where
  "hook_leaveChannel channelId h =
     (case webrtcManagerRef h of
        Some mgr \<Rightarrow>
          if hasSocket h
          then h\<lparr>currentChannel := None,
                 webrtcManagerRef := Some (cleanup (socketSend (leaveMsg (hook_userId h) channelId) mgr)),
                 connectedPeers := []\<rparr>
          else h
      | None \<Rightarrow> h)"

definition hook_sendMessage :: "string \<Rightarrow> string \<Rightarrow> useWebRTC \<Rightarrow> useWebRTC" where
  "hook_sendMessage channelId content h =
     (case webrtcManagerRef h of
        Some mgr \<Rightarrow> h\<lparr>webrtcManagerRef := Some (sendMessage content mgr)\<rparr>
      | None \<Rightarrow> h)"

subsection \<open>Example sessions\<close>

text \<open>Alice's session after \<^verbatim>\<open>peer-joined\<close> from Bob.\<close>

definition aliceLinked :: WebRTCManager where
  "aliceLinked = connectToPeer ''bob'' (newManager ''alice'')"

definition camera :: MediaStream where
  "camera = [\<lparr>track_id = 10, kind = Audio\<rparr>, \<lparr>track_id = 11, kind = Video\<rparr>]"

definition microphone :: MediaStream where
  "microphone = [\<lparr>track_id = 12, kind = Audio\<rparr>]"

definition screen :: MediaStream where
  "screen = [\<lparr>track_id = 20, kind = Video\<rparr>]"

text \<open>
  Alice in a video call: the camera was started first, then Bob and Carol joined, and
  Bob's data channel has opened.
\<close>

definition aliceInCall :: WebRTCManager where
  "aliceInCall =
     (let st = connectToPeer ''carol'' (connectToPeer ''bob''
                 (snd (startVideoCall (Inr camera) (newManager ''alice''))))
      in st\<lparr>dcs := updateAt 0 (\<lambda>c. c\<lparr>dc_readyState := Open\<rparr>) (dcs st)\<rparr>)"


definition aliceHook :: useWebRTC where
  "aliceHook =
     \<lparr>hasSocket = True, hook_userId = ''alice'', webrtcManagerRef = Some aliceInCall,
      connectedPeers = [''bob''], currentChannel = Some ''general''\<rparr>"

text \<open>A hook that holds the session \<open>mgr\<close> and a socket, in the channel general.\<close>

definition hookOf :: "WebRTCManager \<Rightarrow> useWebRTC" where
  "hookOf mgr =
     \<lparr>hasSocket = True, hook_userId = mgr_userId mgr, webrtcManagerRef = Some mgr,
      connectedPeers = [], currentChannel = Some ''general''\<rparr>"

text \<open>
  Alice's session after a second \<^verbatim>\<open>peer-joined\<close> from Bob: connection 0 was replaced in
  the registry by connection 1.
\<close>

definition aliceRelinked :: WebRTCManager where
  "aliceRelinked = connectToPeer ''bob'' aliceLinked"

text \<open>The same, when the data channel of connection 0 had opened before.\<close>

definition aliceStaleChannel :: WebRTCManager where
  "aliceStaleChannel =
     connectToPeer ''bob''
       (aliceLinked\<lparr>dcs := updateAt 0 (\<lambda>c. c\<lparr>dc_readyState := Open\<rparr>) (dcs aliceLinked)\<rparr>)"

text \<open>Alice shares her screen while linked to Bob, with no call started.\<close>

definition aliceSharing :: WebRTCManager where
  "aliceSharing = snd (startScreenShare (Inr screen) aliceLinked)"

text \<open>Alice starts a voice call twice: the second stream takes the place of the first.\<close>

definition microphoneAgain :: MediaStream where
  "microphoneAgain = [\<lparr>track_id = 13, kind = Audio\<rparr>]"

definition aliceTwoCalls :: WebRTCManager where
  "aliceTwoCalls =
     snd (startVoiceCall (Inr microphoneAgain)
            (snd (startVoiceCall (Inr microphone) (newManager ''alice''))))"

section \<open>The mesh: coordinator and sessions together\<close>

text \<open>
  The coordinator, the session behind each socket, and the envelopes in flight, oldest
  first. Every socket is open.
\<close>

datatype event =
    ToServer socket "payload WebRTCSignal"
  | ToClient socket "payload WebRTCSignal"

record mesh =
  server :: coordinator
  clients :: "(socket \<times> WebRTCManager) list"
  inflight :: "event list"

text \<open>
  The browser's part in a step of a session: for every connection whose local description
  was set in the step, one candidate is gathered and \<^verbatim>\<open>onicecandidate\<close> runs.
\<close>

definition gathering :: "WebRTCManager \<Rightarrow> WebRTCManager \<Rightarrow> nat list" where
  "gathering old new =
     filter (\<lambda>r. localDescription (pcs new ! r) \<noteq> None
                 \<and> (length (pcs old) \<le> r \<or> localDescription (pcs old ! r) = None))
       [0..<length (pcs new)]"

definition gatherCandidates :: "WebRTCManager \<Rightarrow> WebRTCManager \<Rightarrow> WebRTCManager" where
  "gatherCandidates old new =
     fold (\<lambda>r. onicecandidate r (Candidate (mgr_userId new) r)) (gathering old new) new"

text \<open>
  One delivery. The coordinator's output goes to the sockets it names; what a session
  writes to its socket goes to the coordinator. Envelopes travel as values: the
  envelopes that the sessions and the coordinator build are taken to come out of
  \<^verbatim>\<open>JSON.stringify\<close> and \<^verbatim>\<open>JSON.parse\<close> as they went in. \<open>None\<close>: the socket
  has no session, or the session's handler is given an envelope outside its type.
\<close>

definition deliver :: "event \<Rightarrow> mesh \<Rightarrow> mesh option" where
  "deliver e m =
     (case e of
        ToServer sock msg \<Rightarrow>
          (let (srv, out) = onMessage allOpen sock (Some msg) (server m)
           in Some (m\<lparr>server := srv,
                      inflight := inflight m @ map (\<lambda>x. ToClient (fst x) (snd x)) out\<rparr>))
      | ToClient sock msg \<Rightarrow>
          (case map_of (clients m) sock of
             None \<Rightarrow> None
           | Some st \<Rightarrow>
               (case handleSignal msg st of
                  None \<Rightarrow> None
                | Some st1 \<Rightarrow>
                    (let st2 = gatherCandidates st st1
                     in Some (m\<lparr>clients := jsmap_set (clients m) sock st2,
                                inflight := inflight m
                                  @ map (ToServer sock) (drop (length (outbox st)) (outbox st2))\<rparr>)))))"

text \<open>
  Deliveries until nothing is in flight; \<open>None\<close> when the fuel runs out first or a
  delivery fails.
\<close>

fun run :: "nat \<Rightarrow> mesh \<Rightarrow> mesh option" where
  "run 0 m = (if inflight m = [] then Some m else None)"
| "run (Suc n) m =
     (case inflight m of
        [] \<Rightarrow> Some m
      | e # es \<Rightarrow> (case deliver e (m\<lparr>inflight := es\<rparr>) of None \<Rightarrow> None | Some m' \<Rightarrow> run n m'))"

text \<open>
  The identities join one after the other: each writes its \<^verbatim>\<open>join-channel\<close> envelope
  (what \<^verbatim>\<open>useWebRTC.joinChannel\<close> sends) and the mesh runs until it is quiet.
\<close>

fun joinAll :: "nat \<Rightarrow> string \<Rightarrow> (socket \<times> string) list \<Rightarrow> mesh \<Rightarrow> mesh option" where
  "joinAll fuel c [] m = Some m"
| "joinAll fuel c ((sock, u) # rest) m =
     (case run fuel (m\<lparr>inflight := inflight m @ [ToServer sock (joinMsg u c)]\<rparr>) of
        None \<Rightarrow> None
      | Some m' \<Rightarrow> joinAll fuel c rest m')"

definition initialMesh :: "string list \<Rightarrow> mesh" where
  "initialMesh us =
     \<lparr>server = emptyCoordinator,
      clients = zip [0..<length us] (map newManager us),
      inflight = []\<rparr>"

definition settle :: "nat \<Rightarrow> string \<Rightarrow> string list \<Rightarrow> mesh option" where
  "settle fuel c us = joinAll fuel c (zip [0..<length us] us) (initialMesh us)"

text \<open>
  A link between two sessions that is connected, at the level of the handshake: each
  registry holds a connection for the other identity, neither is closed, one of them made
  the offer that the other took and got the other's answer, and each took the candidate
  of the other.
\<close>

definition handshake :: "string \<Rightarrow> nat \<Rightarrow> RTCPeerConnection \<Rightarrow> string \<Rightarrow> nat \<Rightarrow> RTCPeerConnection \<Rightarrow> bool" where
  "handshake ua ra pa ub rb pb =
     (localDescription pa = Some (Description SdpOffer ua ra)
      \<and> remoteDescription pb = Some (Description SdpOffer ua ra)
      \<and> localDescription pb = Some (Description SdpAnswer ub rb)
      \<and> remoteDescription pa = Some (Description SdpAnswer ub rb)
      \<and> remoteCandidates pa = [Candidate ub rb]
      \<and> remoteCandidates pb = [Candidate ua ra])"

definition connectedLink :: "WebRTCManager \<Rightarrow> WebRTCManager \<Rightarrow> bool" where
  "connectedLink a b =
     (case (map_of (peers a) (mgr_userId b), map_of (peers b) (mgr_userId a)) of
        (Some ra, Some rb) \<Rightarrow>
          ra < length (pcs a) \<and> rb < length (pcs b)
          \<and> \<not> connectionClosed (pcs a ! ra) \<and> \<not> connectionClosed (pcs b ! rb)
          \<and> (handshake (mgr_userId a) ra (pcs a ! ra) (mgr_userId b) rb (pcs b ! rb)
              \<or> handshake (mgr_userId b) rb (pcs b ! rb) (mgr_userId a) ra (pcs a ! ra))
      | _ \<Rightarrow> False)"

text \<open>How many connection objects the session \<open>a\<close> has ever created for the identity \<open>u\<close>.\<close>

definition createdFor :: "WebRTCManager \<Rightarrow> string \<Rightarrow> nat" where
  "createdFor a u = length (filter (\<lambda>pc. pc_peerId pc = u) (pcs a))"

text \<open>
  Every two different sessions have a connected link, and each has created exactly one
  connection object for the other.
\<close>

definition meshComplete :: "WebRTCManager list \<Rightarrow> bool" where
  "meshComplete ms =
     list_all (\<lambda>a. list_all (\<lambda>b. mgr_userId a = mgr_userId b
                                  \<or> (connectedLink a b \<and> createdFor a (mgr_userId b) = 1)) ms) ms"

text \<open>
  The joins of the identities \<open>us\<close> settle within the fuel, nothing is left in flight, the
  sessions are those of \<open>us\<close>, and the mesh is complete.
\<close>

definition meshSettles :: "nat \<Rightarrow> string \<Rightarrow> string list \<Rightarrow> bool" where
  "meshSettles fuel c us =
     (case settle fuel c us of
        None \<Rightarrow> False
      | Some m \<Rightarrow>
          inflight m = [] \<and> map (\<lambda>x. mgr_userId (snd x)) (clients m) = us
          \<and> meshComplete (map snd (clients m)))"

section \<open>Properties of the containers\<close>

lemma map_of_jsmap_set:
  "map_of (jsmap_set m k v) k' = (if k' = k then Some v else map_of m k')"
  by (induction m) auto

lemma jsmap_set_same: "map_of m k = Some v \<Longrightarrow> jsmap_set m k v = m"
  by (induction m) (auto split: if_splits)

lemma map_fst_jsmap_set:
  "map fst (jsmap_set m k v) = (if k \<in> fst ` set m then map fst m else map fst m @ [k])"
  by (induction m) (fastforce simp: image_iff)+

lemma distinct_jsmap_set:
  "distinct (map fst m) \<Longrightarrow> distinct (map fst (jsmap_set m k v))"
  by (simp add: map_fst_jsmap_set)

lemma list_all_jsmap_set:
  "list_all P m \<Longrightarrow> P (k, v) \<Longrightarrow> list_all P (jsmap_set m k v)"
  by (induction m) auto

lemma distinct_jsset_add: "distinct xs \<Longrightarrow> distinct (jsset_add xs x)"
  by (simp add: jsset_add_def)

lemma set_jsset_add: "set (jsset_add xs x) = insert x (set xs)"
  by (auto simp: jsset_add_def)

section \<open>Properties of the coordinator\<close>

lemma members_distinct:
  "wf_coordinator st \<Longrightarrow> distinct (members st c)"
  by (auto simp: wf_coordinator_def members_def list_all_iff split: option.splits dest: map_of_SomeD)

lemma channelPeers_registerJoin:
  "channelPeers (registerJoin sock u c st) =
     jsmap_set (channelPeers st) c (jsset_add (members st c) u)"
proof (cases "map_of (channelPeers st) c")
  case None
  have "jsmap_set (jsmap_set m c []) c v = jsmap_set m c v" for m :: "(string \<times> string list) list" and v
    by (induction m) auto
  with None show ?thesis
    by (simp add: registerJoin_def Let_def jsmap_has_def members_def map_of_jsmap_set jsset_add_def)
next
  case (Some s)
  then show ?thesis
    by (simp add: registerJoin_def Let_def jsmap_has_def members_def)
qed

lemma connectedUsers_registerJoin:
  "connectedUsers (registerJoin sock u c st) =
     jsmap_set (connectedUsers st) sock \<lparr>ws = sock, userId = u\<rparr>"
  by (simp add: registerJoin_def Let_def)

lemma members_registerJoin:
  "members (registerJoin sock u c st) c' =
     (if c' = c then jsset_add (members st c) u else members st c')"
  by (simp add: members_def channelPeers_registerJoin map_of_jsmap_set)

lemma wf_emptyCoordinator: "wf_coordinator emptyCoordinator"
  by (simp add: wf_coordinator_def emptyCoordinator_def)

lemma wf_registerJoin:
  assumes "wf_coordinator st"
  shows "wf_coordinator (registerJoin sock u c st)"
  unfolding wf_coordinator_def channelPeers_registerJoin connectedUsers_registerJoin
  using assms members_distinct [OF assms, of c]
  by (auto simp: wf_coordinator_def intro!: distinct_jsmap_set list_all_jsmap_set distinct_jsset_add)

lemma wf_twoUsers: "wf_coordinator twoUsers"
  by (simp add: wf_coordinator_def twoUsers_def)


lemma find_None_iff_unbound:
  "findConnection st t = None \<longleftrightarrow> (\<forall>b \<in> set (jsmap_values (connectedUsers st)). userId b \<noteq> t)"
  by (auto simp: findConnection_def find_None_iff)

lemma findConnection_SomeD:
  "findConnection st t = Some b \<Longrightarrow> b \<in> snd ` set (connectedUsers st) \<and> userId b = t"
  by (auto simp: findConnection_def jsmap_values_def find_Some_iff)

lemma set_sendIfOpen:
  "set (sendIfOpen rs b m) = {(s, e). e = m \<and> rs s = OPEN \<and> (\<exists>pc. b = Some pc \<and> ws pc = s)}"
  by (auto simp: sendIfOpen_def split: option.splits)

lemma set_notifyJoined:
  "set (notifyJoined rs u c st) =
     {(s, e). e = peerJoined u c \<and> rs s = OPEN
        \<and> (\<exists>p \<in> set (members st c). p \<noteq> u \<and> (\<exists>pc. findConnection st p = Some pc \<and> ws pc = s))}"
  by (auto simp: notifyJoined_def set_sendIfOpen split: if_splits)

lemma set_notifyLeft:
  "set (notifyLeft rs u c st) =
     {(s, e). e = peerLeft u c \<and> rs s = OPEN
        \<and> (\<exists>p \<in> set (members st c). \<exists>pc. findConnection st p = Some pc \<and> ws pc = s)}"
  by (auto simp: notifyLeft_def set_sendIfOpen)

lemma wf_binding_of_socket:
  assumes "wf_coordinator st" and "b \<in> snd ` set (connectedUsers st)"
  shows "map_of (connectedUsers st) (ws b) = Some b"
proof -
  from assms(2) obtain k where k: "(k, b) \<in> set (connectedUsers st)" by auto
  with assms(1) have "ws b = k"
    by (auto simp: wf_coordinator_def list_all_iff)
  with k assms(1) show ?thesis
    by (simp add: wf_coordinator_def)
qed

lemma onMessage_joinChannel:
  assumes "msg_type m = JoinChannel" and "msg_userId m = Some u" and "u \<noteq> []"
    and "msg_channelId m = Some c" and "c \<noteq> []"
  shows "onMessage rs sock (Some m) st =
           (registerJoin sock u c st, notifyJoined rs u c (registerJoin sock u c st))"
  using assms by (simp add: onMessage_def truthy_def joinChannel_def Let_def)

lemmas eval_defs = onMessage_def joinChannel_def registerJoin_def notifyJoined_def
  leaveChannel_def notifyLeft_def Let_def jsmap_has_def findConnection_def jsmap_values_def
  sendIfOpen_def members_def jsset_add_def jsset_delete_def truthy_def joinMsg_def leaveMsg_def
  peerJoined_def peerLeft_def allOpen_def emptyCoordinator_def



lemma jsmap_set_new: "k \<notin> fst ` set m \<Longrightarrow> jsmap_set m k v = m @ [(k, v)]"
  by (induction m) auto

lemma find_append_Some: "find P xs = Some x \<Longrightarrow> find P (xs @ ys) = Some x"
  by (induction xs) (auto split: if_splits)

lemma onMessage_leaveChannel:
  assumes "msg_type m = LeaveChannel" and "msg_userId m = Some u" and "u \<noteq> []"
    and "msg_channelId m = Some c" and "c \<noteq> []" and "jsmap_has (channelPeers st) c"
  shows "onMessage rs sock (Some m) st = leaveChannel rs u c st"
  using assms by (simp add: onMessage_def truthy_def)

lemma findConnection_cong:
  "connectedUsers st' = connectedUsers st \<Longrightarrow> findConnection st' p = findConnection st p"
  by (simp add: findConnection_def)

lemma unfound_binding_not_target:
  assumes "wf_coordinator st" and "b \<in> snd ` set (connectedUsers st)"
    and "findConnection st (userId b) \<noteq> Some b" and "findConnection st p = Some pc"
  shows "ws pc \<noteq> ws b"
proof
  assume e: "ws pc = ws b"
  from assms(4) have pc: "pc \<in> snd ` set (connectedUsers st)" and u: "userId pc = p"
    using findConnection_SomeD by blast+
  from wf_binding_of_socket [OF assms(1) pc]
  have "map_of (connectedUsers st) (ws b) = Some pc" unfolding e .
  with wf_binding_of_socket [OF assms(1) assms(2)]
  have "Some b = Some pc" by (simp only:)
  then have "pc = b" by (simp only: option.inject)
  with u have "findConnection st (userId b) = Some b" using assms(4) by (simp only:)
  with assms(3) show False by (rule notE)
qed

lemma findConnection_first:
  assumes "findConnection st t = Some b"
  shows "\<exists>i < length (connectedUsers st). snd (connectedUsers st ! i) = b \<and> userId b = t
           \<and> (\<forall>j < i. userId (snd (connectedUsers st ! j)) \<noteq> t)"
  using assms by (auto simp: findConnection_def jsmap_values_def find_Some_iff)

subsection \<open>Relay of addressed envelopes\<close>

text \<open>
  Claim C5, as the code has it. Let the data received parse to an envelope that is neither
  \<^verbatim>\<open>join-channel\<close> nor \<^verbatim>\<open>leave-channel\<close> and carries a non-empty \<^verbatim>\<open>to\<close>. The
  coordinator's state is never changed. The addressee is looked up as the first entry of
  \<^verbatim>\<open>connectedUsers\<close>, in the order of the table, whose identity is \<^verbatim>\<open>to\<close>. When that
  entry's socket is open, one text is written, to that socket (which may be the sender's
  own): the \<^verbatim>\<open>JSON.stringify\<close> of the parsed envelope, of which the coordinator has
  changed no field, \<^verbatim>\<open>from\<close> included. When that socket is not open, or when no entry
  names the addressee, nothing is written at all.
\<close>

theorem relay_writes_stringified_parse:
  assumes "JSON_parse data = Some m"
    and "msg_type m \<noteq> JoinChannel" and "msg_type m \<noteq> LeaveChannel"
    and "msg_to m = Some t" and "t \<noteq> []"
  shows "fst (onData JSON_parse JSON_stringify rs sock data st) = st
       \<and> (\<forall>c. findConnection st t = Some c \<and> rs (ws c) = OPEN
              \<longrightarrow> snd (onData JSON_parse JSON_stringify rs sock data st) = [(ws c, JSON_stringify m)])
       \<and> (\<forall>c. findConnection st t = Some c \<and> rs (ws c) \<noteq> OPEN
              \<longrightarrow> snd (onData JSON_parse JSON_stringify rs sock data st) = [])
       \<and> ((\<forall>b \<in> set (jsmap_values (connectedUsers st)). userId b \<noteq> t)
              \<longrightarrow> snd (onData JSON_parse JSON_stringify rs sock data st) = [])
       \<and> (\<forall>c. findConnection st t = Some c
              \<longrightarrow> (\<exists>i < length (connectedUsers st). snd (connectedUsers st ! i) = c \<and> userId c = t
                     \<and> (\<forall>j < i. userId (snd (connectedUsers st ! j)) \<noteq> t)))"
proof -
  have r: "onMessage rs sock (Some m) st = (st, sendIfOpen rs (findConnection st t) m)"
    using assms(2-5) by (simp add: onMessage_def truthy_def)
  have d: "onData JSON_parse JSON_stringify rs sock data st
             = (st, map (\<lambda>x. (fst x, JSON_stringify (snd x))) (sendIfOpen rs (findConnection st t) m))"
    by (simp add: onData_def assms(1) r)
  have n: "findConnection st t = None" if "\<forall>b \<in> set (jsmap_values (connectedUsers st)). userId b \<noteq> t"
    using that by (simp add: find_None_iff_unbound)
  have a: "fst (onData JSON_parse JSON_stringify rs sock data st) = st"
    by (simp add: d)
  have b: "\<forall>c. findConnection st t = Some c \<and> rs (ws c) = OPEN
              \<longrightarrow> snd (onData JSON_parse JSON_stringify rs sock data st) = [(ws c, JSON_stringify m)]"
    by (simp add: d sendIfOpen_def)
  have c: "\<forall>c. findConnection st t = Some c \<and> rs (ws c) \<noteq> OPEN
              \<longrightarrow> snd (onData JSON_parse JSON_stringify rs sock data st) = []"
    by (simp add: d sendIfOpen_def)
  have e: "(\<forall>b \<in> set (jsmap_values (connectedUsers st)). userId b \<noteq> t)
              \<longrightarrow> snd (onData JSON_parse JSON_stringify rs sock data st) = []"
    using n by (simp add: d sendIfOpen_def)
  have f: "\<forall>c. findConnection st t = Some c
              \<longrightarrow> (\<exists>i < length (connectedUsers st). snd (connectedUsers st ! i) = c \<and> userId c = t
                     \<and> (\<forall>j < i. userId (snd (connectedUsers st ! j)) \<noteq> t))"
    using findConnection_first by blast
  show ?thesis
    by (intro conjI a b c e f)
qed

theorem relay_writes_stringified_parse_witness:
  "wireParse ''offer to alice, as sent'' = Some offerToAlice
   \<and> msg_to offerToAlice = Some ''alice''
   \<and> findConnection twoUsers ''alice'' = Some \<lparr>ws = 1, userId = ''alice''\<rparr>
   \<and> allOpen 1 = OPEN
   \<and> onData wireParse wireStringify allOpen 1 ''offer to alice, as sent'' twoUsers
       = (twoUsers, [(1, ''offer to alice, stringified'')])"
proof -
  have h: "wireParse ''offer to alice, as sent'' = Some offerToAlice"
    "msg_type offerToAlice \<noteq> JoinChannel" "msg_type offerToAlice \<noteq> LeaveChannel"
    "msg_to offerToAlice = Some ''alice''" "''alice'' \<noteq> []"
    by (simp_all add: wireParse_def offerToAlice_def)
  have f: "findConnection twoUsers ''alice'' = Some \<lparr>ws = 1, userId = ''alice''\<rparr>"
    by (simp add: findConnection_def jsmap_values_def twoUsers_def)
  have o: "allOpen 1 = OPEN" by (simp add: allOpen_def)
  have s: "wireStringify offerToAlice = ''offer to alice, stringified''"
    by (simp add: wireStringify_def)
  note t = relay_writes_stringified_parse [where JSON_parse = wireParse
      and data = "''offer to alice, as sent''" and m = offerToAlice and t = "''alice''"
      and JSON_stringify = wireStringify and rs = allOpen and sock = 1 and st = twoUsers,
      OF h]
  from t [THEN conjunct1] have 1: "fst (onData wireParse wireStringify allOpen 1 ''offer to alice, as sent'' twoUsers) = twoUsers" .
  from t [THEN conjunct2, THEN conjunct1, THEN spec, of "\<lparr>ws = 1, userId = ''alice''\<rparr>"] f o s
  have 2: "snd (onData wireParse wireStringify allOpen 1 ''offer to alice, as sent'' twoUsers)
             = [(1, ''offer to alice, stringified'')]"
    by simp
  from 1 2 have "onData wireParse wireStringify allOpen 1 ''offer to alice, as sent'' twoUsers
       = (twoUsers, [(1, ''offer to alice, stringified'')])"
    by (simp add: prod_eq_iff)
  with h(1,4) f o show ?thesis by simp
qed

text \<open>
  Claim C5 as stated fails. Alice's socket writes an offer that names Mallory as its
  sender, and the envelope handed to \<^verbatim>\<open>JSON.stringify\<close> for Bob has that very \<^verbatim>\<open>from\<close>:
  the coordinator has not set it to the identity bound to the socket. A
  \<^verbatim>\<open>join-channel\<close> envelope that carries \<^verbatim>\<open>to\<close> is not relayed. And when Bob has two
  bindings, the first on a closing socket and the second on an open one, an offer
  addressed to Bob is dropped.
\<close>

theorem relay_from_counterexample:
  "map_of (connectedUsers twoUsers) 1 = Some \<lparr>ws = 1, userId = ''alice''\<rparr>
   \<and> snd (onMessage allOpen 1 (Some spoofedOffer) twoUsers) = [(2, spoofedOffer)]
   \<and> msg_from spoofedOffer = Some ''mallory''
   \<and> msg_to joinWithTo = Some ''bob''
   \<and> snd (onMessage allOpen 1 (Some joinWithTo) twoUsers) = []
   \<and> map_of (connectedUsers bobTwice) 4 = Some \<lparr>ws = 4, userId = ''bob''\<rparr>
   \<and> closingTwo 4 = OPEN
   \<and> snd (onMessage closingTwo 1 (Some spoofedOffer) bobTwice) = []"
  by (simp add: eval_defs spoofedOffer_def joinWithTo_def twoUsers_def bobTwice_def closingTwo_def)

subsection \<open>Join discovery\<close>

text \<open>
  Claim C6, as the code has it. Processing \<^verbatim>\<open>join-channel\<close> for the identity \<open>u\<close> and
  the channel \<open>c\<close> on the socket \<open>sock\<close>: for every other member of the channel the
  coordinator looks up the first entry of \<^verbatim>\<open>connectedUsers\<close> with the member's identity,
  and when that entry's socket is open it is sent the envelope with type
  \<^verbatim>\<open>peer-joined\<close>, \<^verbatim>\<open>from\<close> \<open>u\<close> and \<^verbatim>\<open>channelId\<close> \<open>c\<close>, and no other field. Every
  envelope written is this one, to an open socket found so for another member. A binding
  that the lookup does not find for its identity is never written to, whether its socket
  is open or not. Nothing is written to the joiner's own socket. The members are the
  former ones and \<open>u\<close>.
\<close>

theorem join_notifies_members_found_open:
  assumes "wf_coordinator st"
    and "msg_type m = JoinChannel" and "msg_userId m = Some u" and "u \<noteq> []"
    and "msg_channelId m = Some c" and "c \<noteq> []"
  shows "(\<forall>p \<in> set (members (fst (onMessage rs sock (Some m) st)) c). \<forall>pc.
            p \<noteq> u \<and> findConnection (fst (onMessage rs sock (Some m) st)) p = Some pc
              \<and> rs (ws pc) = OPEN
            \<longrightarrow> (ws pc, \<lparr>msg_type = PeerJoined, msg_from = Some u, msg_to = None, msg_channelId = Some c, msg_userId = None, msg_data = None\<rparr>) \<in> set (snd (onMessage rs sock (Some m) st)))
       \<and> (\<forall>x \<in> set (snd (onMessage rs sock (Some m) st)).
            snd x = \<lparr>msg_type = PeerJoined, msg_from = Some u, msg_to = None, msg_channelId = Some c, msg_userId = None, msg_data = None\<rparr>
            \<and> fst x \<noteq> sock \<and> rs (fst x) = OPEN
            \<and> (\<exists>p \<in> set (members (fst (onMessage rs sock (Some m) st)) c).
                  p \<noteq> u \<and> (\<exists>pc. findConnection (fst (onMessage rs sock (Some m) st)) p = Some pc
                                  \<and> ws pc = fst x)))
       \<and> (\<forall>b \<in> snd ` set (connectedUsers (fst (onMessage rs sock (Some m) st))).
            findConnection (fst (onMessage rs sock (Some m) st)) (userId b) \<noteq> Some b
            \<longrightarrow> (\<forall>x \<in> set (snd (onMessage rs sock (Some m) st)). fst x \<noteq> ws b))
       \<and> set (members (fst (onMessage rs sock (Some m) st)) c) = insert u (set (members st c))"
proof -
  let ?st = "registerJoin sock u c st"
  let ?out = "notifyJoined rs u c ?st :: (socket \<times> 'a WebRTCSignal) list"
  have r: "onMessage rs sock (Some m) st = (?st, ?out)"
    using assms(2-6) by (rule onMessage_joinChannel)
  have wf: "wf_coordinator ?st" using assms(1) by (rule wf_registerJoin)
  have own: "map_of (connectedUsers ?st) sock = Some \<lparr>ws = sock, userId = u\<rparr>"
    by (simp add: connectedUsers_registerJoin map_of_jsmap_set)
  have notself: "ws pc \<noteq> sock" if "findConnection ?st p = Some pc" and "p \<noteq> u" for p pc
  proof
    assume "ws pc = sock"
    moreover from that(1) have "pc \<in> snd ` set (connectedUsers ?st)" and "userId pc = p"
      using findConnection_SomeD by blast+
    ultimately have "pc = \<lparr>ws = sock, userId = u\<rparr>"
      using wf_binding_of_socket [OF wf] own by fastforce
    with \<open>userId pc = p\<close> \<open>p \<noteq> u\<close> show False by simp
  qed
  have a: "\<forall>p \<in> set (members ?st c). \<forall>pc.
            p \<noteq> u \<and> findConnection ?st p = Some pc \<and> rs (ws pc) = OPEN
            \<longrightarrow> (ws pc, \<lparr>msg_type = PeerJoined, msg_from = Some u, msg_to = None, msg_channelId = Some c, msg_userId = None, msg_data = None\<rparr>) \<in> set ?out"
    by (auto simp: set_notifyJoined peerJoined_def)
  have b: "\<forall>x \<in> set ?out.
            snd x = \<lparr>msg_type = PeerJoined, msg_from = Some u, msg_to = None, msg_channelId = Some c, msg_userId = None, msg_data = None\<rparr>
            \<and> fst x \<noteq> sock \<and> rs (fst x) = OPEN
            \<and> (\<exists>p \<in> set (members ?st c).
                  p \<noteq> u \<and> (\<exists>pc. findConnection ?st p = Some pc \<and> ws pc = fst x))"
    using notself by (auto simp: set_notifyJoined peerJoined_def)
  have c: "\<forall>b \<in> snd ` set (connectedUsers ?st).
            findConnection ?st (userId b) \<noteq> Some b \<longrightarrow> (\<forall>x \<in> set ?out. fst x \<noteq> ws b)"
  proof (intro ballI impI)
    fix b x
    assume b: "b \<in> snd ` set (connectedUsers ?st)" "findConnection ?st (userId b) \<noteq> Some b"
      and x: "x \<in> set ?out"
    from x obtain p pc where "findConnection ?st p = Some pc" "ws pc = fst x"
      by (auto simp: set_notifyJoined)
    with unfound_binding_not_target [OF wf b] show "fst x \<noteq> ws b" by metis
  qed
  have d: "set (members ?st c) = insert u (set (members st c))"
    by (simp add: members_registerJoin set_jsset_add)
  show ?thesis unfolding r fst_conv snd_conv
    by (intro conjI a b c d)
qed

lemma wf_bobTwice: "wf_coordinator bobTwice"
  by (simp add: wf_coordinator_def bobTwice_def eval_defs twoUsers_def)

theorem join_notifies_members_found_open_witness:
  "wf_coordinator bobTwice
   \<and> findConnection (fst (onMessage closingTwo 3 (Some (joinMsg ''carol'' ''general'' :: nat WebRTCSignal)) bobTwice)) ''alice'' = Some \<lparr>ws = 1, userId = ''alice''\<rparr>
   \<and> closingTwo 1 = OPEN
   \<and> (1, \<lparr>msg_type = PeerJoined, msg_from = Some ''carol'', msg_to = None, msg_channelId = Some ''general'', msg_userId = None, msg_data = None\<rparr>) \<in> set (snd (onMessage closingTwo 3 (Some (joinMsg ''carol'' ''general'' :: nat WebRTCSignal)) bobTwice))
   \<and> (3, \<lparr>msg_type = PeerJoined, msg_from = Some ''carol'', msg_to = None, msg_channelId = Some ''general'', msg_userId = None, msg_data = None\<rparr>) \<notin> set (snd (onMessage closingTwo 3 (Some (joinMsg ''carol'' ''general'' :: nat WebRTCSignal)) bobTwice))
   \<and> findConnection (fst (onMessage closingTwo 3 (Some (joinMsg ''carol'' ''general'' :: nat WebRTCSignal)) bobTwice)) ''bob'' = Some \<lparr>ws = 2, userId = ''bob''\<rparr>
   \<and> (4, \<lparr>msg_type = PeerJoined, msg_from = Some ''carol'', msg_to = None, msg_channelId = Some ''general'', msg_userId = None, msg_data = None\<rparr>) \<notin> set (snd (onMessage closingTwo 3 (Some (joinMsg ''carol'' ''general'' :: nat WebRTCSignal)) bobTwice))
   \<and> set (members (fst (onMessage closingTwo 3 (Some (joinMsg ''carol'' ''general'' :: nat WebRTCSignal)) bobTwice)) ''general'') = {''alice'', ''bob'', ''carol''}"
proof -
  let ?m = "joinMsg ''carol'' ''general'' :: nat WebRTCSignal"
  let ?st = "fst (onMessage closingTwo 3 (Some ?m) bobTwice)"
  let ?out = "snd (onMessage closingTwo 3 (Some ?m) bobTwice)"
  let ?pj = "\<lparr>msg_type = PeerJoined, msg_from = Some ''carol'', msg_to = None, msg_channelId = Some ''general'', msg_userId = None, msg_data = None\<rparr> :: nat WebRTCSignal"
  have h: "msg_type ?m = JoinChannel" "msg_userId ?m = Some ''carol''" "''carol'' \<noteq> []"
    "msg_channelId ?m = Some ''general''" "''general'' \<noteq> []"
    by (simp_all add: joinMsg_def)
  have cu: "connectedUsers ?st = [(1, \<lparr>ws = 1, userId = ''alice''\<rparr>), (2, \<lparr>ws = 2, userId = ''bob''\<rparr>),
      (4, \<lparr>ws = 4, userId = ''bob''\<rparr>), (3, \<lparr>ws = 3, userId = ''carol''\<rparr>)]"
    by (simp add: bobTwice_def eval_defs twoUsers_def)
  have f: "findConnection ?st ''alice'' = Some \<lparr>ws = 1, userId = ''alice''\<rparr>"
    "findConnection ?st ''bob'' = Some \<lparr>ws = 2, userId = ''bob''\<rparr>"
    by (simp_all add: findConnection_def jsmap_values_def cu)
  have mem: "set (members bobTwice ''general'') = {''alice'', ''bob''}"
    by (simp add: bobTwice_def eval_defs twoUsers_def)
  have o: "closingTwo 1 = OPEN" by (simp add: closingTwo_def)
  note t = join_notifies_members_found_open [OF wf_bobTwice h, of closingTwo 3]
  note t1 = t [THEN conjunct1]
  note t2 = t [THEN conjunct2, THEN conjunct1]
  note t3 = t [THEN conjunct2, THEN conjunct2, THEN conjunct1]
  note t4 = t [THEN conjunct2, THEN conjunct2, THEN conjunct2]
  from t4 mem have m3: "set (members ?st ''general'') = {''alice'', ''bob'', ''carol''}"
    by auto
  have n3: "(3, ?pj) \<notin> set ?out"
  proof
    assume "(3, ?pj) \<in> set ?out"
    from bspec [OF t2 this] show False by simp
  qed
  have "\<lparr>ws = 4, userId = ''bob''\<rparr> \<in> snd ` set (connectedUsers ?st)"
    by (simp add: cu)
  from bspec [OF t3 this] f(2) have "\<forall>x \<in> set ?out. fst x \<noteq> 4"
    by simp
  then have n4: "(4, ?pj) \<notin> set ?out"
    by fastforce
  have "''alice'' \<in> set (members ?st ''general'')"
    by (simp add: m3)
  with t1 have "\<forall>pc. ''alice'' \<noteq> ''carol'' \<and> findConnection ?st ''alice'' = Some pc
      \<and> closingTwo (ws pc) = OPEN \<longrightarrow> (ws pc, ?pj) \<in> set ?out"
    by (rule bspec)
  from this [THEN spec, of "\<lparr>ws = 1, userId = ''alice''\<rparr>"] f o
  have y1: "(1, ?pj) \<in> set ?out"
    by simp
  show ?thesis
    by (intro conjI wf_bobTwice f o y1 n3 n4 m3)
qed

text \<open>
  Claim C6 as stated fails. Bob is a member of general and holds two bindings, the first
  on socket 2, which is closing, and the second on socket 4, which is open. When Carol
  joins, only Alice is sent \<^verbatim>\<open>peer-joined\<close>: Bob's open socket gets nothing.
\<close>

theorem join_skips_open_member_counterexample:
  "''bob'' \<in> set (members bobTwice ''general'')
   \<and> map_of (connectedUsers bobTwice) 4 = Some \<lparr>ws = 4, userId = ''bob''\<rparr>
   \<and> closingTwo 4 = OPEN
   \<and> snd (onMessage closingTwo 3 (Some (joinMsg ''carol'' ''general'' :: nat WebRTCSignal)) bobTwice) = [(1, \<lparr>msg_type = PeerJoined, msg_from = Some ''carol'', msg_to = None, msg_channelId = Some ''general'', msg_userId = None, msg_data = None\<rparr>)]"
  by (simp add: bobTwice_def closingTwo_def eval_defs twoUsers_def)

subsection \<open>Leaving a channel\<close>

text \<open>
  Claim C9, as the code has it. For every \<^verbatim>\<open>leave-channel\<close> envelope with an identity
  \<open>u\<close> and a channel \<open>c\<close> that exists in the presence table, whether \<open>u\<close> is a member or
  not: the bindings are unchanged, \<open>u\<close> is removed from the members of \<open>c\<close> and no other
  channel changes; when \<open>u\<close> is not a member the whole state is as it was. For every
  remaining member the coordinator looks up the first entry of \<^verbatim>\<open>connectedUsers\<close> with
  the member's identity, and when that entry's socket is open it is sent the envelope
  with type \<^verbatim>\<open>peer-left\<close>, \<^verbatim>\<open>from\<close> \<open>u\<close> and \<^verbatim>\<open>channelId\<close> \<open>c\<close>, and no other field.
  Every envelope written is this one, to an open socket found so for a remaining member.
  A binding that the lookup does not find for its identity is never written to.
\<close>

theorem leave_notifies_members_found_open:
  assumes "wf_coordinator st"
    and "msg_type m = LeaveChannel" and "msg_userId m = Some u" and "u \<noteq> []"
    and "msg_channelId m = Some c" and "c \<noteq> []"
    and "jsmap_has (channelPeers st) c"
  shows "connectedUsers (fst (onMessage rs sock (Some m) st)) = connectedUsers st
       \<and> members (fst (onMessage rs sock (Some m) st)) c = filter (\<lambda>p. p \<noteq> u) (members st c)
       \<and> (\<forall>c'. c' \<noteq> c \<longrightarrow> members (fst (onMessage rs sock (Some m) st)) c' = members st c')
       \<and> (u \<notin> set (members st c) \<longrightarrow> fst (onMessage rs sock (Some m) st) = st)
       \<and> (\<forall>p \<in> set (members (fst (onMessage rs sock (Some m) st)) c). \<forall>pc.
             findConnection st p = Some pc \<and> rs (ws pc) = OPEN
             \<longrightarrow> (ws pc, \<lparr>msg_type = PeerLeft, msg_from = Some u, msg_to = None, msg_channelId = Some c, msg_userId = None, msg_data = None\<rparr>) \<in> set (snd (onMessage rs sock (Some m) st)))
       \<and> (\<forall>x \<in> set (snd (onMessage rs sock (Some m) st)).
             snd x = \<lparr>msg_type = PeerLeft, msg_from = Some u, msg_to = None, msg_channelId = Some c, msg_userId = None, msg_data = None\<rparr>
             \<and> rs (fst x) = OPEN
             \<and> (\<exists>p \<in> set (members (fst (onMessage rs sock (Some m) st)) c).
                   \<exists>pc. findConnection st p = Some pc \<and> ws pc = fst x))
       \<and> (\<forall>b \<in> snd ` set (connectedUsers st).
             findConnection st (userId b) \<noteq> Some b
             \<longrightarrow> (\<forall>x \<in> set (snd (onMessage rs sock (Some m) st)). fst x \<noteq> ws b))"
proof -
  let ?st = "fst (leaveChannel rs u c st :: coordinator \<times> (socket \<times> 'a WebRTCSignal) list)"
  let ?out = "notifyLeft rs u c ?st :: (socket \<times> 'a WebRTCSignal) list"
  have r: "onMessage rs sock (Some m) st = (?st, ?out)"
    using onMessage_leaveChannel [OF assms(2-7), of rs sock]
    by (simp add: leaveChannel_def Let_def)
  have cu: "connectedUsers ?st = connectedUsers st"
    by (simp add: leaveChannel_def Let_def)
  have cp: "channelPeers ?st = jsmap_set (channelPeers st) c (jsset_delete (members st c) u)"
    by (simp add: leaveChannel_def Let_def)
  have fc: "findConnection ?st p = findConnection st p" for p
    using cu by (rule findConnection_cong)
  have m1: "members ?st c = filter (\<lambda>p. p \<noteq> u) (members st c)"
    by (simp add: members_def cp map_of_jsmap_set jsset_delete_def)
  have m2: "\<forall>c'. c' \<noteq> c \<longrightarrow> members ?st c' = members st c'"
    by (simp add: members_def cp map_of_jsmap_set)
  have same: "u \<notin> set (members st c) \<longrightarrow> ?st = st"
  proof
    assume n: "u \<notin> set (members st c)"
    from assms(7) obtain s where s: "map_of (channelPeers st) c = Some s"
      by (auto simp: jsmap_has_def)
    with n have "jsset_delete (members st c) u = s"
      by (auto simp: members_def jsset_delete_def filter_id_conv)
    with s have "jsmap_set (channelPeers st) c (jsset_delete (members st c) u) = channelPeers st"
      by (simp add: jsmap_set_same)
    then show "?st = st" by (simp add: leaveChannel_def Let_def)
  qed
  have a: "\<forall>p \<in> set (members ?st c). \<forall>pc.
             findConnection st p = Some pc \<and> rs (ws pc) = OPEN
             \<longrightarrow> (ws pc, \<lparr>msg_type = PeerLeft, msg_from = Some u, msg_to = None, msg_channelId = Some c, msg_userId = None, msg_data = None\<rparr>) \<in> set ?out"
    by (auto simp: set_notifyLeft peerLeft_def fc)
  have b: "\<forall>x \<in> set ?out.
             snd x = \<lparr>msg_type = PeerLeft, msg_from = Some u, msg_to = None, msg_channelId = Some c, msg_userId = None, msg_data = None\<rparr>
             \<and> rs (fst x) = OPEN
             \<and> (\<exists>p \<in> set (members ?st c). \<exists>pc. findConnection st p = Some pc \<and> ws pc = fst x)"
    by (auto simp: set_notifyLeft peerLeft_def fc)
  have c: "\<forall>b \<in> snd ` set (connectedUsers st).
             findConnection st (userId b) \<noteq> Some b \<longrightarrow> (\<forall>x \<in> set ?out. fst x \<noteq> ws b)"
  proof (intro ballI impI)
    fix b x
    assume b: "b \<in> snd ` set (connectedUsers st)" "findConnection st (userId b) \<noteq> Some b"
      and x: "x \<in> set ?out"
    from x obtain p pc where "findConnection st p = Some pc" "ws pc = fst x"
      by (auto simp: set_notifyLeft fc)
    with unfound_binding_not_target [OF assms(1) b] show "fst x \<noteq> ws b" by metis
  qed
  show ?thesis unfolding r fst_conv snd_conv
    by (intro conjI cu m1 m2 same a b c)
qed

theorem leave_notifies_members_found_open_witness:
  "wf_coordinator bobTwice \<and> jsmap_has (channelPeers bobTwice) ''general''
   \<and> ''dave'' \<notin> set (members bobTwice ''general'')
   \<and> fst (onMessage closingTwo 5 (Some (leaveMsg ''dave'' ''general'' :: nat WebRTCSignal)) bobTwice) = bobTwice
   \<and> (1, \<lparr>msg_type = PeerLeft, msg_from = Some ''dave'', msg_to = None, msg_channelId = Some ''general'', msg_userId = None, msg_data = None\<rparr>) \<in> set (snd (onMessage closingTwo 5 (Some (leaveMsg ''dave'' ''general'' :: nat WebRTCSignal)) bobTwice))
   \<and> (4, \<lparr>msg_type = PeerLeft, msg_from = Some ''dave'', msg_to = None, msg_channelId = Some ''general'', msg_userId = None, msg_data = None\<rparr>) \<notin> set (snd (onMessage closingTwo 5 (Some (leaveMsg ''dave'' ''general'' :: nat WebRTCSignal)) bobTwice))
   \<and> wf_coordinator twoUsers
   \<and> members (fst (onMessage allOpen 2 (Some (leaveMsg ''bob'' ''general'' :: nat WebRTCSignal)) twoUsers)) ''general'' = [''alice'']
   \<and> (1, \<lparr>msg_type = PeerLeft, msg_from = Some ''bob'', msg_to = None, msg_channelId = Some ''general'', msg_userId = None, msg_data = None\<rparr>) \<in> set (snd (onMessage allOpen 2 (Some (leaveMsg ''bob'' ''general'' :: nat WebRTCSignal)) twoUsers))"
proof -
  let ?m = "leaveMsg ''dave'' ''general'' :: nat WebRTCSignal"
  let ?out = "snd (onMessage closingTwo 5 (Some ?m) bobTwice)"
  let ?pl = "\<lparr>msg_type = PeerLeft, msg_from = Some ''dave'', msg_to = None, msg_channelId = Some ''general'', msg_userId = None, msg_data = None\<rparr> :: nat WebRTCSignal"
  have h: "msg_type ?m = LeaveChannel" "msg_userId ?m = Some ''dave''" "''dave'' \<noteq> []"
    "msg_channelId ?m = Some ''general''" "''general'' \<noteq> []"
    "jsmap_has (channelPeers bobTwice) ''general''"
    by (simp_all add: leaveMsg_def jsmap_has_def bobTwice_def eval_defs twoUsers_def)
  have cu: "connectedUsers bobTwice = [(1, \<lparr>ws = 1, userId = ''alice''\<rparr>),
      (2, \<lparr>ws = 2, userId = ''bob''\<rparr>), (4, \<lparr>ws = 4, userId = ''bob''\<rparr>)]"
    and mem: "members bobTwice ''general'' = [''alice'', ''bob'']"
    by (simp_all add: bobTwice_def eval_defs twoUsers_def)
  have f: "findConnection bobTwice ''alice'' = Some \<lparr>ws = 1, userId = ''alice''\<rparr>"
    "findConnection bobTwice ''bob'' = Some \<lparr>ws = 2, userId = ''bob''\<rparr>"
    by (simp_all add: findConnection_def jsmap_values_def cu)
  have o: "closingTwo 1 = OPEN" by (simp add: closingTwo_def)
  have nm: "''dave'' \<notin> set (members bobTwice ''general'')" by (simp add: mem)
  note t = leave_notifies_members_found_open [OF wf_bobTwice h, of closingTwo 5]
  note t2 = t [THEN conjunct2, THEN conjunct1]
  note t4 = t [THEN conjunct2, THEN conjunct2, THEN conjunct2, THEN conjunct1]
  note t5 = t [THEN conjunct2, THEN conjunct2, THEN conjunct2, THEN conjunct2, THEN conjunct1]
  note t7 = t [THEN conjunct2, THEN conjunct2, THEN conjunct2, THEN conjunct2, THEN conjunct2,
    THEN conjunct2]
  from t4 nm have s: "fst (onMessage closingTwo 5 (Some ?m) bobTwice) = bobTwice"
    by (rule mp)
  have "''alice'' \<in> set (members (fst (onMessage closingTwo 5 (Some ?m) bobTwice)) ''general'')"
    by (simp add: s mem)
  with t5 have "\<forall>pc. findConnection bobTwice ''alice'' = Some pc \<and> closingTwo (ws pc) = OPEN
      \<longrightarrow> (ws pc, ?pl) \<in> set ?out"
    by (rule bspec)
  from this [THEN spec, of "\<lparr>ws = 1, userId = ''alice''\<rparr>"] f o
  have y1: "(1, ?pl) \<in> set ?out"
    by simp
  have "\<lparr>ws = 4, userId = ''bob''\<rparr> \<in> snd ` set (connectedUsers bobTwice)"
    by (simp add: cu)
  from bspec [OF t7 this] f(2) have "\<forall>x \<in> set ?out. fst x \<noteq> 4"
    by simp
  then have n4: "(4, ?pl) \<notin> set ?out"
    by fastforce
  let ?mb = "leaveMsg ''bob'' ''general'' :: nat WebRTCSignal"
  let ?outb = "snd (onMessage allOpen 2 (Some ?mb) twoUsers)"
  let ?plb = "\<lparr>msg_type = PeerLeft, msg_from = Some ''bob'', msg_to = None, msg_channelId = Some ''general'', msg_userId = None, msg_data = None\<rparr> :: nat WebRTCSignal"
  have hb: "msg_type ?mb = LeaveChannel" "msg_userId ?mb = Some ''bob''" "''bob'' \<noteq> []"
    "msg_channelId ?mb = Some ''general''" "''general'' \<noteq> []"
    "jsmap_has (channelPeers twoUsers) ''general''"
    by (simp_all add: leaveMsg_def jsmap_has_def twoUsers_def)
  have fb: "findConnection twoUsers ''alice'' = Some \<lparr>ws = 1, userId = ''alice''\<rparr>"
    "members twoUsers ''general'' = [''alice'', ''bob'']" "allOpen 1 = OPEN"
    by (simp_all add: findConnection_def jsmap_values_def members_def twoUsers_def allOpen_def)
  note tb = leave_notifies_members_found_open [OF wf_twoUsers hb, of allOpen 2]
  note tb2 = tb [THEN conjunct2, THEN conjunct1]
  note tb5 = tb [THEN conjunct2, THEN conjunct2, THEN conjunct2, THEN conjunct2, THEN conjunct1]
  from tb2 fb(2) have mb: "members (fst (onMessage allOpen 2 (Some ?mb) twoUsers)) ''general'' = [''alice'']"
    by simp
  then have "''alice'' \<in> set (members (fst (onMessage allOpen 2 (Some ?mb) twoUsers)) ''general'')"
    by simp
  with tb5 have "\<forall>pc. findConnection twoUsers ''alice'' = Some pc \<and> allOpen (ws pc) = OPEN
      \<longrightarrow> (ws pc, ?plb) \<in> set ?outb"
    by (rule bspec)
  from this [THEN spec, of "\<lparr>ws = 1, userId = ''alice''\<rparr>"] fb
  have yb: "(1, ?plb) \<in> set ?outb"
    by simp
  show ?thesis
    by (intro conjI wf_bobTwice h(6) nm s y1 n4 wf_twoUsers mb yb)
qed

text \<open>
  Claim C9 as stated fails. Bob is a member of general and holds two bindings, the first
  on socket 2, which is closing, and the second on socket 4, which is open. When Dave, who
  is not a member, sends \<^verbatim>\<open>leave-channel\<close> for general, only Alice is sent
  \<^verbatim>\<open>peer-left\<close>: Bob's open socket gets nothing.
\<close>

theorem leave_skips_open_member_counterexample:
  "''bob'' \<in> set (members bobTwice ''general'')
   \<and> ''dave'' \<notin> set (members bobTwice ''general'')
   \<and> map_of (connectedUsers bobTwice) 4 = Some \<lparr>ws = 4, userId = ''bob''\<rparr>
   \<and> closingTwo 4 = OPEN
   \<and> snd (onMessage closingTwo 5 (Some (leaveMsg ''dave'' ''general'' :: nat WebRTCSignal)) bobTwice) = [(1, \<lparr>msg_type = PeerLeft, msg_from = Some ''dave'', msg_to = None, msg_channelId = Some ''general'', msg_userId = None, msg_data = None\<rparr>)]"
  by (simp add: bobTwice_def closingTwo_def eval_defs twoUsers_def)

subsection \<open>Joining twice\<close>





subsection \<open>Bindings\<close>

text \<open>
  Claim C1, as the code has it. Bindings are kept per socket, not per identity: the
  socket that sends \<^verbatim>\<open>join-channel\<close> for \<open>u\<close> is bound to \<open>u\<close>, every socket keeps at
  most one binding, and the binding of every other socket is left as it was, whatever
  identity it names. When the joining socket is new, every lookup by identity that found
  a binding before finds the same binding afterwards.
\<close>

theorem join_binds_socket_only:
  assumes "wf_coordinator st"
    and "msg_type m = JoinChannel" and "msg_userId m = Some u" and "u \<noteq> []"
    and "msg_channelId m = Some c" and "c \<noteq> []"
  shows "wf_coordinator (fst (onMessage rs sock (Some m) st))
       \<and> map_of (connectedUsers (fst (onMessage rs sock (Some m) st))) sock = Some \<lparr>ws = sock, userId = u\<rparr>
       \<and> (\<forall>s. s \<noteq> sock \<longrightarrow> map_of (connectedUsers (fst (onMessage rs sock (Some m) st))) s
                                = map_of (connectedUsers st) s)
       \<and> (\<forall>t b. sock \<notin> fst ` set (connectedUsers st) \<and> findConnection st t = Some b
              \<longrightarrow> findConnection (fst (onMessage rs sock (Some m) st)) t = Some b)"
proof -
  let ?st = "registerJoin sock u c st"
  note r = onMessage_joinChannel [OF assms(2-6)]
  have wf: "wf_coordinator ?st" using assms(1) by (rule wf_registerJoin)
  have "findConnection ?st t = Some b"
    if "sock \<notin> fst ` set (connectedUsers st)" and "findConnection st t = Some b" for t b
    using that
    by (simp add: findConnection_def jsmap_values_def connectedUsers_registerJoin jsmap_set_new
        find_append_Some)
  then show ?thesis unfolding r fst_conv
    using wf by (simp add: connectedUsers_registerJoin map_of_jsmap_set)
qed

theorem join_binds_socket_only_witness:
  "wf_coordinator twoUsers \<and> 3 \<notin> fst ` set (connectedUsers twoUsers)
   \<and> findConnection twoUsers ''alice'' = Some \<lparr>ws = 1, userId = ''alice''\<rparr>
   \<and> map_of (connectedUsers (fst (onMessage allOpen 3 (Some (joinMsg ''alice'' ''general'' :: nat WebRTCSignal))
        twoUsers))) 3 = Some \<lparr>ws = 3, userId = ''alice''\<rparr>
   \<and> map_of (connectedUsers (fst (onMessage allOpen 3 (Some (joinMsg ''alice'' ''general'' :: nat WebRTCSignal))
        twoUsers))) 1 = Some \<lparr>ws = 1, userId = ''alice''\<rparr>
   \<and> findConnection (fst (onMessage allOpen 3 (Some (joinMsg ''alice'' ''general'' :: nat WebRTCSignal))
        twoUsers)) ''alice'' = Some \<lparr>ws = 1, userId = ''alice''\<rparr>"
proof -
  let ?m = "joinMsg ''alice'' ''general'' :: nat WebRTCSignal"
  have h: "msg_type ?m = JoinChannel" "msg_userId ?m = Some ''alice''" "''alice'' \<noteq> []"
    "msg_channelId ?m = Some ''general''" "''general'' \<noteq> []"
    by (simp_all add: joinMsg_def)
  have f: "3 \<notin> fst ` set (connectedUsers twoUsers)"
    "findConnection twoUsers ''alice'' = Some \<lparr>ws = 1, userId = ''alice''\<rparr>"
    "map_of (connectedUsers twoUsers) 1 = Some \<lparr>ws = 1, userId = ''alice''\<rparr>"
    by (simp_all add: findConnection_def jsmap_values_def twoUsers_def)
  from join_binds_socket_only [OF wf_twoUsers h, of allOpen 3] f
  show ?thesis using wf_twoUsers by simp
qed

text \<open>
  Claim C1 as stated fails: after Alice has joined on socket 1 and again on socket 3, both
  bindings are held, both sockets are open, and an offer addressed to Alice is written to
  socket 1, the earlier binding.
\<close>

theorem stale_binding_counterexample:
  "connectedUsers aliceTwice = [(1, \<lparr>ws = 1, userId = ''alice''\<rparr>), (3, \<lparr>ws = 3, userId = ''alice''\<rparr>)]
   \<and> allOpen 1 = OPEN \<and> allOpen 3 = OPEN
   \<and> snd (onMessage allOpen 2 (Some offerToAlice) aliceTwice) = [(1, offerToAlice)]"
  by (simp add: aliceTwice_def offerToAlice_def eval_defs)

section \<open>Properties of the peer mesh session\<close>

lemma length_updateAt [simp]: "length (updateAt r f xs) = length xs"
  by (simp add: updateAt_def)

lemma nth_updateAt:
  "i < length xs \<Longrightarrow> updateAt r f xs ! i = (if i = r then f (xs ! i) else xs ! i)"
  by (simp add: updateAt_def)

lemma length_fold_updateAt [simp]: "length (fold (\<lambda>r. updateAt r f) rs xs) = length xs"
  by (induction rs arbitrary: xs) auto

lemma nth_fold_updateAt:
  "distinct rs \<Longrightarrow> i < length xs \<Longrightarrow>
     fold (\<lambda>r. updateAt r f) rs xs ! i = (if i \<in> set rs then f (xs ! i) else xs ! i)"
  by (induction rs arbitrary: xs) (auto simp: nth_updateAt)

lemma fold_updatePc:
  "fold (\<lambda>pc. updatePc pc f) rs st = st\<lparr>pcs := fold (\<lambda>r. updateAt r f) rs (pcs st)\<rparr>"
  by (induction rs arbitrary: st) (auto simp: updatePc_def)

lemma closed_stays:
  "i < length xs \<Longrightarrow> connectionClosed (xs ! i) \<Longrightarrow>
     connectionClosed (fold (\<lambda>r. updateAt r closePc) rs xs ! i)"
  by (induction rs arbitrary: xs) (auto simp: nth_updateAt closePc_def)

lemma closed_by_fold:
  "i \<in> set rs \<Longrightarrow> i < length xs \<Longrightarrow>
     connectionClosed (fold (\<lambda>r. updateAt r closePc) rs xs ! i)"
proof (induction rs arbitrary: xs)
  case Nil
  then show ?case by simp
next
  case (Cons r rs)
  show ?case
  proof (cases "i = r")
    case True
    with Cons.prems have "connectionClosed (updateAt r closePc xs ! i)"
      by (simp add: nth_updateAt closePc_def)
    then show ?thesis using Cons.prems by (simp add: closed_stays)
  next
    case False
    with Cons show ?thesis by simp
  qed
qed





lemma peers_updateLocalStream [simp]: "peers (updateLocalStream s st) = peers st"
  by (simp add: updateLocalStream_def split: option.splits)

lemma pcs_updateLocalStream [simp]: "pcs (updateLocalStream s st) = pcs st"
  by (simp add: updateLocalStream_def split: option.splits)


lemmas client_defs = connectToPeer_def createPeerConnection_def setupDataChannel_def
  socketSend_def addLocalTracks_def updatePc_def updateAt_def newPeerConnection_def
  newManager_def handleOffer_def setRemoteDescription_def addTracks_def addTrack_def
  startVideoCall_def startVoiceCall_def addToAllPeers_def jsmap_values_def Let_def

lemma pcs_cleanup:
  "pcs (cleanup st) = fold (\<lambda>r. updateAt r closePc) (jsmap_values (peers st)) (pcs st)"
  by (simp add: cleanup_def Let_def fold_updatePc split: option.splits)

lemma cleanup_fields:
  "peers (cleanup st) = []" "dataChannels (cleanup st) = []" "localStream (cleanup st) = None"
  "isVoiceEnabled (cleanup st) = False" "isVideoEnabled (cleanup st) = False"
  by (simp_all add: cleanup_def Let_def fold_updatePc split: option.splits)

lemma stopped_cleanup:
  "localStream st = Some stream \<Longrightarrow> stoppedTracks (cleanup st) = stoppedTracks st @ map track_id stream"
  by (simp add: cleanup_def Let_def fold_updatePc)

lemma cleanup_outbox_irrelevant:
  "(cleanup (socketSend m st))\<lparr>outbox := []\<rparr> = (cleanup (socketSend m' st))\<lparr>outbox := []\<rparr>"
  by (simp add: cleanup_def Let_def fold_updatePc socketSend_def split: option.splits)

lemma aliceLinked_eq:
  "aliceLinked =
     \<lparr>mgr_userId = ''alice'', peers = [(''bob'', 0)], dataChannels = [(''bob'', 0)],
      localStream = None, isVoiceEnabled = False, isVideoEnabled = False,
      pcs = [\<lparr>pc_peerId = ''bob'', localDescription = Some (Description SdpOffer ''alice'' 0),
              remoteDescription = None, remoteCandidates = [], senders = [],
              connectionClosed = False\<rparr>],
      dcs = [\<lparr>label = ''messages'', dc_readyState = Connecting, dc_sent = []\<rparr>],
      stoppedTracks = [],
      outbox = [\<lparr>msg_type = Offer, msg_from = Some ''alice'', msg_to = Some ''bob'',
                 msg_channelId = None, msg_userId = None,
                 msg_data = Some (Description SdpOffer ''alice'' 0)\<rparr>],
      events = [], console = []\<rparr>"
  by (simp add: aliceLinked_def client_defs)

lemma aliceInCall_eq:
  "aliceInCall =
     \<lparr>mgr_userId = ''alice'', peers = [(''bob'', 0), (''carol'', 1)],
      dataChannels = [(''bob'', 0), (''carol'', 1)],
      localStream = Some camera, isVoiceEnabled = False, isVideoEnabled = True,
      pcs = [\<lparr>pc_peerId = ''bob'', localDescription = Some (Description SdpOffer ''alice'' 0),
              remoteDescription = None, remoteCandidates = [],
              senders = [\<lparr>track = Some \<lparr>track_id = 10, kind = Audio\<rparr>\<rparr>,
                         \<lparr>track = Some \<lparr>track_id = 11, kind = Video\<rparr>\<rparr>],
              connectionClosed = False\<rparr>,
             \<lparr>pc_peerId = ''carol'', localDescription = Some (Description SdpOffer ''alice'' 1),
              remoteDescription = None, remoteCandidates = [],
              senders = [\<lparr>track = Some \<lparr>track_id = 10, kind = Audio\<rparr>\<rparr>,
                         \<lparr>track = Some \<lparr>track_id = 11, kind = Video\<rparr>\<rparr>],
              connectionClosed = False\<rparr>],
      dcs = [\<lparr>label = ''messages'', dc_readyState = Open, dc_sent = []\<rparr>,
             \<lparr>label = ''messages'', dc_readyState = Connecting, dc_sent = []\<rparr>],
      stoppedTracks = [],
      outbox = [\<lparr>msg_type = Offer, msg_from = Some ''alice'', msg_to = Some ''bob'',
                 msg_channelId = None, msg_userId = None,
                 msg_data = Some (Description SdpOffer ''alice'' 0)\<rparr>,
                \<lparr>msg_type = Offer, msg_from = Some ''alice'', msg_to = Some ''carol'',
                 msg_channelId = None, msg_userId = None,
                 msg_data = Some (Description SdpOffer ''alice'' 1)\<rparr>],
      events = [], console = []\<rparr>"
  by (simp add: aliceInCall_def camera_def client_defs)


lemma take_updateAt: "n \<le> r \<Longrightarrow> take n (updateAt r f xs) = take n xs"
  by (simp add: updateAt_def)

lemma peers_updatePc [simp]: "peers (updatePc r f st) = peers st"
  by (simp add: updatePc_def)

lemma peers_addLocalTracks [simp]: "peers (addLocalTracks r st) = peers st"
  by (simp add: addLocalTracks_def split: option.splits)

lemma length_pcs_updatePc [simp]: "length (pcs (updatePc r f st)) = length (pcs st)"
  by (simp add: updatePc_def)

lemma take_pcs_updatePc:
  "n \<le> r \<Longrightarrow> take n (pcs (updatePc r f st)) = take n (pcs st)"
  by (simp add: updatePc_def take_updateAt)

lemma length_pcs_addLocalTracks [simp]: "length (pcs (addLocalTracks r st)) = length (pcs st)"
  by (simp add: addLocalTracks_def split: option.splits)

lemma take_pcs_addLocalTracks:
  "n \<le> r \<Longrightarrow> take n (pcs (addLocalTracks r st)) = take n (pcs st)"
  by (simp add: addLocalTracks_def take_pcs_updatePc split: option.splits)

lemma peers_connectToPeer:
  "peers (connectToPeer p st) = jsmap_set (peers st) p (length (pcs st))"
  by (simp add: connectToPeer_def createPeerConnection_def setupDataChannel_def socketSend_def Let_def)

lemma length_pcs_connectToPeer:
  "length (pcs (connectToPeer p st)) = Suc (length (pcs st))"
  by (simp add: connectToPeer_def createPeerConnection_def setupDataChannel_def socketSend_def Let_def)

lemma take_pcs_connectToPeer:
  "take (length (pcs st)) (pcs (connectToPeer p st)) = pcs st"
  by (simp add: connectToPeer_def createPeerConnection_def setupDataChannel_def socketSend_def Let_def
      take_pcs_updatePc take_pcs_addLocalTracks)

lemma peers_handleOffer:
  "peers (handleOffer p d st) = jsmap_set (peers st) p (length (pcs st))"
  by (simp add: handleOffer_def createPeerConnection_def socketSend_def Let_def split: option.splits)

lemma length_pcs_handleOffer:
  "length (pcs (handleOffer p d st)) = Suc (length (pcs st))"
  by (simp add: handleOffer_def createPeerConnection_def socketSend_def Let_def split: option.splits)

lemma take_pcs_handleOffer:
  "take (length (pcs st)) (pcs (handleOffer p d st)) = pcs st"
  by (simp add: handleOffer_def createPeerConnection_def socketSend_def Let_def
      take_pcs_updatePc take_pcs_addLocalTracks split: option.splits)

lemma nth_of_take: "take n xs = ys \<Longrightarrow> r < n \<Longrightarrow> xs ! r = ys ! r"
  by (metis nth_take)

subsection \<open>The connection registry\<close>

text \<open>
  Claim C3, as the code has it. The registry holds at most one entry for each remote
  identity. A creation request for \<open>p\<close>, whether \<^verbatim>\<open>connectToPeer\<close> or an incoming offer,
  is never a no-op: it creates a new connection object and stores it under \<open>p\<close>, in place
  of the entry that was there. The entries of the other identities are kept, and no
  connection object that existed before is changed: the one that was replaced is not
  closed.
\<close>

theorem creation_replaces_registry_entry:
  assumes "distinct (map fst (peers st))"
    and "st' = connectToPeer p st \<or> st' = handleOffer p d st"
  shows "distinct (map fst (peers st'))
       \<and> map_of (peers st') p = Some (length (pcs st))
       \<and> (\<forall>q. q \<noteq> p \<longrightarrow> map_of (peers st') q = map_of (peers st) q)
       \<and> length (pcs st') = Suc (length (pcs st))
       \<and> (\<forall>r < length (pcs st). pcs st' ! r = pcs st ! r)
       \<and> (\<forall>r. map_of (peers st) p = Some r \<and> r < length (pcs st)
              \<longrightarrow> map_of (peers st') p \<noteq> Some r
                  \<and> connectionClosed (pcs st' ! r) = connectionClosed (pcs st ! r))"
proof -
  have p: "peers st' = jsmap_set (peers st) p (length (pcs st))"
    using assms(2) by (auto simp: peers_connectToPeer peers_handleOffer)
  have l: "length (pcs st') = Suc (length (pcs st))"
    using assms(2) by (auto simp: length_pcs_connectToPeer length_pcs_handleOffer)
  have "take (length (pcs st)) (pcs st') = pcs st"
    using assms(2) by (auto simp: take_pcs_connectToPeer take_pcs_handleOffer)
  then have n: "pcs st' ! r = pcs st ! r" if "r < length (pcs st)" for r
    using that by (rule nth_of_take)
  show ?thesis
    using assms(1) l n by (auto simp: p distinct_jsmap_set map_of_jsmap_set)
qed

theorem creation_replaces_registry_entry_witness:
  "distinct (map fst (peers aliceLinked))
   \<and> map_of (peers aliceLinked) ''bob'' = Some 0
   \<and> map_of (peers (connectToPeer ''bob'' aliceLinked)) ''bob'' = Some 1
   \<and> connectionClosed (pcs (connectToPeer ''bob'' aliceLinked) ! 0) = False
   \<and> length (pcs (connectToPeer ''bob'' aliceLinked)) = 2"
proof -
  have h: "distinct (map fst (peers aliceLinked))" "map_of (peers aliceLinked) ''bob'' = Some 0"
    "length (pcs aliceLinked) = 1" "connectionClosed (pcs aliceLinked ! 0) = False"
    by (simp_all add: aliceLinked_eq)
  have "connectToPeer ''bob'' aliceLinked = connectToPeer ''bob'' aliceLinked
        \<or> connectToPeer ''bob'' aliceLinked = handleOffer ''bob'' None aliceLinked"
    by simp
  from creation_replaces_registry_entry [OF h(1) this] h
  show ?thesis by simp
qed

text \<open>
  Claim C3 as stated fails: Alice holds a connection to Bob (object 0, not closed); a
  second \<^verbatim>\<open>peer-joined\<close> from Bob, or an offer from Bob, puts a new object (object 1) in
  the registry in place of it.
\<close>

theorem duplicate_creation_counterexample:
  "map_of (peers aliceLinked) ''bob'' = Some 0
   \<and> connectionClosed (pcs aliceLinked ! 0) = False
   \<and> map_of (peers (connectToPeer ''bob'' aliceLinked)) ''bob'' = Some 1
   \<and> map_of (peers (handleOffer ''bob'' (Some (Description SdpOffer ''bob'' 0)) aliceLinked)) ''bob'' = Some 1
   \<and> length (pcs (connectToPeer ''bob'' aliceLinked)) = 2"
  by (simp add: aliceLinked_eq client_defs)

subsection \<open>Media\<close>

text \<open>
  Claim C7, as the code has it. When the capture fails, each of \<^verbatim>\<open>startVoiceCall\<close>,
  \<^verbatim>\<open>startVideoCall\<close> and \<^verbatim>\<open>startScreenShare\<close> catches the error and writes it to the
  console: its promise is fulfilled, so nothing is surfaced to the caller. The session is
  left as it was but for the console line; the registry and every connection are
  unchanged.
\<close>

theorem capture_failure_is_swallowed:
  "startVoiceCall (Inl e) st = (Inr (), st\<lparr>console := console st @ [''Error starting voice call:'']\<rparr>)
   \<and> startVideoCall (Inl e) st = (Inr (), st\<lparr>console := console st @ [''Error starting video call:'']\<rparr>)
   \<and> startScreenShare (Inl e) st = (Inr (), st\<lparr>console := console st @ [''Error starting screen share:'']\<rparr>)
   \<and> peers (snd (startVoiceCall (Inl e) st)) = peers st \<and> pcs (snd (startVoiceCall (Inl e) st)) = pcs st
   \<and> peers (snd (startVideoCall (Inl e) st)) = peers st \<and> pcs (snd (startVideoCall (Inl e) st)) = pcs st
   \<and> peers (snd (startScreenShare (Inl e) st)) = peers st \<and> pcs (snd (startScreenShare (Inl e) st)) = pcs st"
  by (simp add: startVoiceCall_def startVideoCall_def startScreenShare_def)

text \<open>
  Claim C7 as stated fails: with a capture that is denied, the promise of each of the
  three operations is fulfilled, not rejected.
\<close>

theorem capture_failure_counterexample:
  "fst (startVoiceCall (Inl ''NotAllowedError'') aliceLinked) = Inr ()
   \<and> fst (startVideoCall (Inl ''NotAllowedError'') aliceLinked) = Inr ()
   \<and> fst (startScreenShare (Inl ''NotAllowedError'') aliceLinked) = Inr ()"
  by (simp add: startVoiceCall_def startVideoCall_def startScreenShare_def)



lemma nth_fold_close:
  "i < length xs \<Longrightarrow>
     fold (\<lambda>r. updateAt r closePc) rs xs ! i
       = (if i \<in> set rs then (xs ! i)\<lparr>connectionClosed := True\<rparr> else xs ! i)"
  by (induction rs arbitrary: xs) (auto simp: nth_updateAt closePc_def)

lemma stopped_cleanup_exact:
  "stoppedTracks (cleanup st)
     = stoppedTracks st @ (case localStream st of None \<Rightarrow> [] | Some stream \<Rightarrow> map track_id stream)"
  by (simp add: cleanup_def Let_def fold_updatePc split: option.splits)

subsection \<open>The channel identifier in the hook\<close>

text \<open>
  Claim C10, as the code has it. \<^verbatim>\<open>sendMessage(channelId, content)\<close> does the same for
  every \<open>channelId\<close>: every data channel held in the registry \<^verbatim>\<open>dataChannels\<close> that is
  open sends \<open>content\<close>, and every other channel, a channel replaced in the registry
  included, is left as it is. \<^verbatim>\<open>leaveChannel(channelId)\<close> tears down what the session
  holds: the two registries are emptied, every connection held in the registry \<^verbatim>\<open>peers\<close>
  is closed, every track of the current local stream is stopped and the stream is
  dropped. A connection that is not in the registry, because it was replaced there, is
  left as it is, and no other track is stopped. Apart from the \<^verbatim>\<open>leave-channel\<close>
  envelope that it writes to the socket, the session it leaves does not depend on
  \<open>channelId\<close>.
\<close>

theorem session_ignores_channelId:
  assumes "webrtcManagerRef h = Some mgr" and "hasSocket h"
    and "distinct (jsmap_values (dataChannels mgr))"
  shows "hook_sendMessage c1 content h = hook_sendMessage c2 content h
       \<and> webrtcManagerRef (hook_sendMessage c1 content h) = Some (sendMessage content mgr)
       \<and> (\<forall>r \<in> set (jsmap_values (dataChannels mgr)).
             r < length (dcs mgr) \<and> dc_readyState (dcs mgr ! r) = Open
             \<longrightarrow> dc_sent (dcs (sendMessage content mgr) ! r) = dc_sent (dcs mgr ! r) @ [content])
       \<and> webrtcManagerRef (hook_leaveChannel c1 h)
           = Some (cleanup (socketSend (leaveMsg (hook_userId h) c1) mgr))
       \<and> peers (cleanup (socketSend (leaveMsg (hook_userId h) c1) mgr)) = []
       \<and> dataChannels (cleanup (socketSend (leaveMsg (hook_userId h) c1) mgr)) = []
       \<and> localStream (cleanup (socketSend (leaveMsg (hook_userId h) c1) mgr)) = None
       \<and> (\<forall>r \<in> set (jsmap_values (peers mgr)). r < length (pcs mgr)
             \<longrightarrow> connectionClosed (pcs (cleanup (socketSend (leaveMsg (hook_userId h) c1) mgr)) ! r))
       \<and> (\<forall>stream. localStream mgr = Some stream
             \<longrightarrow> set (map track_id stream)
                   \<subseteq> set (stoppedTracks (cleanup (socketSend (leaveMsg (hook_userId h) c1) mgr))))
       \<and> (cleanup (socketSend (leaveMsg (hook_userId h) c1) mgr))\<lparr>outbox := []\<rparr>
           = (cleanup (socketSend (leaveMsg (hook_userId h) c2) mgr))\<lparr>outbox := []\<rparr>
       \<and> currentChannel (hook_leaveChannel c1 h) = None
       \<and> connectedPeers (hook_leaveChannel c1 h) = []
       \<and> length (pcs (cleanup (socketSend (leaveMsg (hook_userId h) c1) mgr))) = length (pcs mgr)
       \<and> (\<forall>r < length (pcs mgr).
             pcs (cleanup (socketSend (leaveMsg (hook_userId h) c1) mgr)) ! r
               = (if r \<in> set (jsmap_values (peers mgr))
                  then (pcs mgr ! r)\<lparr>connectionClosed := True\<rparr> else pcs mgr ! r))
       \<and> stoppedTracks (cleanup (socketSend (leaveMsg (hook_userId h) c1) mgr))
           = stoppedTracks mgr
               @ (case localStream mgr of None \<Rightarrow> [] | Some stream \<Rightarrow> map track_id stream)
       \<and> length (dcs (sendMessage content mgr)) = length (dcs mgr)
       \<and> (\<forall>r < length (dcs mgr).
             dcs (sendMessage content mgr) ! r
               = (if r \<in> set (jsmap_values (dataChannels mgr)) \<and> dc_readyState (dcs mgr ! r) = Open
                  then (dcs mgr ! r)\<lparr>dc_sent := dc_sent (dcs mgr ! r) @ [content]\<rparr>
                  else dcs mgr ! r))"
proof -
  let ?m = "leaveMsg (hook_userId h) c1 :: payload WebRTCSignal"
  let ?L = "cleanup (socketSend ?m mgr)"
  have a: "\<forall>r \<in> set (jsmap_values (dataChannels mgr)).
             r < length (dcs mgr) \<and> dc_readyState (dcs mgr ! r) = Open
             \<longrightarrow> dc_sent (dcs (sendMessage content mgr) ! r) = dc_sent (dcs mgr ! r) @ [content]"
    using assms(3) by (simp add: sendMessage_def nth_fold_updateAt channelSend_def)
  have b: "\<forall>r \<in> set (jsmap_values (peers mgr)). r < length (pcs mgr)
             \<longrightarrow> connectionClosed (pcs ?L ! r)"
    by (simp add: pcs_cleanup closed_by_fold socketSend_def)
  have c: "\<forall>stream. localStream mgr = Some stream
             \<longrightarrow> set (map track_id stream) \<subseteq> set (stoppedTracks ?L)"
    by (simp add: stopped_cleanup_exact socketSend_def)
  have d: "?L\<lparr>outbox := []\<rparr> = (cleanup (socketSend (leaveMsg (hook_userId h) c2) mgr))\<lparr>outbox := []\<rparr>"
    by (rule cleanup_outbox_irrelevant)
  have e: "length (pcs ?L) = length (pcs mgr)"
    by (simp add: pcs_cleanup socketSend_def)
  have f: "\<forall>r < length (pcs mgr).
             pcs ?L ! r = (if r \<in> set (jsmap_values (peers mgr))
                           then (pcs mgr ! r)\<lparr>connectionClosed := True\<rparr> else pcs mgr ! r)"
    by (simp add: pcs_cleanup nth_fold_close socketSend_def)
  have g: "stoppedTracks ?L
           = stoppedTracks mgr
               @ (case localStream mgr of None \<Rightarrow> [] | Some stream \<Rightarrow> map track_id stream)"
    by (simp add: stopped_cleanup_exact socketSend_def)
  have i: "length (dcs (sendMessage content mgr)) = length (dcs mgr)"
    by (simp add: sendMessage_def)
  have j: "\<forall>r < length (dcs mgr).
             dcs (sendMessage content mgr) ! r
               = (if r \<in> set (jsmap_values (dataChannels mgr)) \<and> dc_readyState (dcs mgr ! r) = Open
                  then (dcs mgr ! r)\<lparr>dc_sent := dc_sent (dcs mgr ! r) @ [content]\<rparr>
                  else dcs mgr ! r)"
    using assms(3) by (simp add: sendMessage_def nth_fold_updateAt channelSend_def)
  have k: "hook_sendMessage c1 content h = hook_sendMessage c2 content h"
    "webrtcManagerRef (hook_sendMessage c1 content h) = Some (sendMessage content mgr)"
    "webrtcManagerRef (hook_leaveChannel c1 h) = Some ?L"
    "currentChannel (hook_leaveChannel c1 h) = None"
    "connectedPeers (hook_leaveChannel c1 h) = []"
    using assms(1,2) by (simp_all add: hook_sendMessage_def hook_leaveChannel_def)
  have l: "peers ?L = []" "dataChannels ?L = []" "localStream ?L = None"
    by (simp_all add: cleanup_fields)
  show ?thesis
    by (intro conjI k a l b c d e f g i j)
qed

theorem session_ignores_channelId_witness:
  "webrtcManagerRef aliceHook = Some aliceInCall \<and> hasSocket aliceHook
   \<and> distinct (jsmap_values (dataChannels aliceInCall))
   \<and> hook_sendMessage ''general'' ''hello'' aliceHook = hook_sendMessage ''other'' ''hello'' aliceHook
   \<and> dc_sent (dcs (sendMessage ''hello'' aliceInCall) ! 0) = [''hello'']
   \<and> dcs (sendMessage ''hello'' aliceInCall) ! 1 = dcs aliceInCall ! 1
   \<and> peers (cleanup (socketSend (leaveMsg ''alice'' ''other'') aliceInCall)) = []
   \<and> pcs (cleanup (socketSend (leaveMsg ''alice'' ''other'') aliceInCall)) ! 0 = (pcs aliceInCall ! 0)\<lparr>connectionClosed := True\<rparr>
   \<and> pcs (cleanup (socketSend (leaveMsg ''alice'' ''other'') aliceInCall)) ! 1 = (pcs aliceInCall ! 1)\<lparr>connectionClosed := True\<rparr>
   \<and> stoppedTracks (cleanup (socketSend (leaveMsg ''alice'' ''other'') aliceInCall)) = [10, 11]"
proof -
  have h: "webrtcManagerRef aliceHook = Some aliceInCall" "hasSocket aliceHook"
    "distinct (jsmap_values (dataChannels aliceInCall))"
    by (simp_all add: aliceHook_def aliceInCall_eq jsmap_values_def)
  have u: "hook_userId aliceHook = ''alice''"
    by (simp add: aliceHook_def)
  have f: "localStream aliceInCall = Some camera" "stoppedTracks aliceInCall = []"
    "0 \<in> set (jsmap_values (peers aliceInCall))" "1 \<in> set (jsmap_values (peers aliceInCall))"
    "0 \<in> set (jsmap_values (dataChannels aliceInCall))"
    "dc_readyState (dcs aliceInCall ! 0) = Open" "dc_sent (dcs aliceInCall ! 0) = []"
    "dc_readyState (dcs aliceInCall ! 1) = Connecting"
    by (simp_all add: aliceInCall_eq jsmap_values_def)
  have n: "0 < length (pcs aliceInCall)" "1 < length (pcs aliceInCall)"
    "0 < length (dcs aliceInCall)" "1 < length (dcs aliceInCall)"
    by (simp_all add: aliceInCall_eq)
  note t = session_ignores_channelId [OF h, of "''other''" "''hello''" "''general''", unfolded u]
  note t' = session_ignores_channelId [OF h, of "''general''" "''hello''" "''other''"]
  have 1: "hook_sendMessage ''general'' ''hello'' aliceHook = hook_sendMessage ''other'' ''hello'' aliceHook"
    by (rule t' [THEN conjunct1])
  from t [THEN conjunct2, THEN conjunct2, THEN conjunct1, THEN bspec, OF f(5)] n(3) f(6,7)
  have 2: "dc_sent (dcs (sendMessage ''hello'' aliceInCall) ! 0) = [''hello'']"
    by simp
  from t [THEN conjunct2, THEN conjunct2, THEN conjunct2, THEN conjunct2, THEN conjunct2, THEN conjunct2, THEN conjunct2, THEN conjunct2, THEN conjunct2, THEN conjunct2, THEN conjunct2, THEN conjunct2, THEN conjunct2, THEN conjunct2, THEN conjunct2, THEN conjunct2, THEN spec, of 1, THEN mp, OF n(4)] f(8)
  have 3: "dcs (sendMessage ''hello'' aliceInCall) ! 1 = dcs aliceInCall ! 1"
    by simp
  have 4: "peers (cleanup (socketSend (leaveMsg ''alice'' ''other'') aliceInCall)) = []"
    by (rule t [THEN conjunct2, THEN conjunct2, THEN conjunct2, THEN conjunct2, THEN conjunct1])
  from t [THEN conjunct2, THEN conjunct2, THEN conjunct2, THEN conjunct2, THEN conjunct2, THEN conjunct2, THEN conjunct2, THEN conjunct2, THEN conjunct2, THEN conjunct2, THEN conjunct2, THEN conjunct2, THEN conjunct2, THEN conjunct1, THEN spec, of 0, THEN mp, OF n(1)] f(3)
  have 5: "pcs (cleanup (socketSend (leaveMsg ''alice'' ''other'') aliceInCall)) ! 0 = (pcs aliceInCall ! 0)\<lparr>connectionClosed := True\<rparr>"
    by simp
  from t [THEN conjunct2, THEN conjunct2, THEN conjunct2, THEN conjunct2, THEN conjunct2, THEN conjunct2, THEN conjunct2, THEN conjunct2, THEN conjunct2, THEN conjunct2, THEN conjunct2, THEN conjunct2, THEN conjunct2, THEN conjunct1, THEN spec, of 1, THEN mp, OF n(2)] f(4)
  have 6: "pcs (cleanup (socketSend (leaveMsg ''alice'' ''other'') aliceInCall)) ! 1 = (pcs aliceInCall ! 1)\<lparr>connectionClosed := True\<rparr>"
    by simp
  from t [THEN conjunct2, THEN conjunct2, THEN conjunct2, THEN conjunct2, THEN conjunct2, THEN conjunct2, THEN conjunct2, THEN conjunct2, THEN conjunct2, THEN conjunct2, THEN conjunct2, THEN conjunct2, THEN conjunct2, THEN conjunct2, THEN conjunct1] f(1,2)
  have 7: "stoppedTracks (cleanup (socketSend (leaveMsg ''alice'' ''other'') aliceInCall)) = [10, 11]"
    by (simp add: camera_def)
  show ?thesis
    by (intro conjI h 1 2 3 4 5 6 7)
qed

text \<open>
  Claim C10 as stated fails. After a second \<^verbatim>\<open>peer-joined\<close> from Bob, \<^verbatim>\<open>leaveChannel\<close>
  closes connection 1 and leaves connection 0, which the registry no longer holds, open.
  After a screen share with no call started, \<^verbatim>\<open>leaveChannel\<close> stops no track: the
  screen track stays on the sender, not stopped. After two voice calls,
  \<^verbatim>\<open>leaveChannel\<close> stops the track of the second stream only. And \<^verbatim>\<open>sendMessage\<close>
  sends nothing over the open data channel of the connection that was replaced.
\<close>

theorem teardown_counterexample:
  "webrtcManagerRef (hook_leaveChannel ''general'' (hookOf aliceRelinked))
     = Some (cleanup (socketSend (leaveMsg ''alice'' ''general'') aliceRelinked))
   \<and> map connectionClosed (pcs aliceRelinked) = [False, False]
   \<and> map connectionClosed (pcs (cleanup (socketSend (leaveMsg ''alice'' ''general'') aliceRelinked))) = [False, True]
   \<and> webrtcManagerRef (hook_leaveChannel ''general'' (hookOf aliceSharing))
     = Some (cleanup (socketSend (leaveMsg ''alice'' ''general'') aliceSharing))
   \<and> map senders (pcs (cleanup (socketSend (leaveMsg ''alice'' ''general'') aliceSharing))) = [[\<lparr>track = Some \<lparr>track_id = 20, kind = Video\<rparr>\<rparr>]]
   \<and> stoppedTracks (cleanup (socketSend (leaveMsg ''alice'' ''general'') aliceSharing)) = []
   \<and> webrtcManagerRef (hook_leaveChannel ''general'' (hookOf aliceTwoCalls))
     = Some (cleanup (socketSend (leaveMsg ''alice'' ''general'') aliceTwoCalls))
   \<and> stoppedTracks (cleanup (socketSend (leaveMsg ''alice'' ''general'') aliceTwoCalls)) = [13]
   \<and> webrtcManagerRef (hook_sendMessage ''general'' ''hello'' (hookOf aliceStaleChannel))
     = Some (sendMessage ''hello'' aliceStaleChannel)
   \<and> map dc_readyState (dcs aliceStaleChannel) = [Open, Connecting]
   \<and> map dc_sent (dcs (sendMessage ''hello'' aliceStaleChannel)) = [[], []]"
  by (simp add: hook_leaveChannel_def hook_sendMessage_def hookOf_def aliceRelinked_def
      aliceSharing_def aliceTwoCalls_def aliceStaleChannel_def aliceLinked_eq microphone_def
      microphoneAgain_def screen_def client_defs cleanup_def leaveMsg_def sendMessage_def
      channelSend_def closePc_def startScreenShare_def shareOn_def carriesVideo_def
      firstVideoTrack_def updateLocalStream_def)

section \<open>Properties of the mesh\<close>

lemmas mesh_defs = meshSettles_def settle_def initialMesh_def deliver_def gatherCandidates_def
  gathering_def onicecandidate_def handleSignal_def handleAnswer_def handleIceCandidate_def
  addIceCandidate_def meshComplete_def connectedLink_def handshake_def createdFor_def
  connectToPeer_def createPeerConnection_def setupDataChannel_def
  socketSend_def addLocalTracks_def updatePc_def updateAt_def newPeerConnection_def
  newManager_def handleOffer_def setRemoteDescription_def Let_def
  onMessage_def joinChannel_def registerJoin_def notifyJoined_def
  jsmap_has_def findConnection_def jsmap_values_def
  sendIfOpen_def members_def jsset_add_def truthy_def joinMsg_def
  peerJoined_def allOpen_def emptyCoordinator_def

lemma mesh2:
  assumes "distinct [a, b]" "[] \<notin> set [a, b]" "c \<noteq> []"
  shows "meshSettles 37 c [a, b]"
proof -
  from assms(1) have ne: "a \<noteq> b" "b \<noteq> a"
    by auto
  from assms(2) have "a \<noteq> []" "b \<noteq> []"
    by auto
  with ne assms(3) show ?thesis
    by (simp add: mesh_defs eval_nat_numeral upt_rec)
qed

lemma mesh3:
  assumes "distinct [a, b, d]" "[] \<notin> set [a, b, d]" "c \<noteq> []"
  shows "meshSettles 37 c [a, b, d]"
proof -
  from assms(1) have ne: "a \<noteq> b" "b \<noteq> a" "a \<noteq> d" "d \<noteq> a" "b \<noteq> d" "d \<noteq> b"
    by auto
  from assms(2) have "a \<noteq> []" "b \<noteq> []" "d \<noteq> []"
    by auto
  with ne assms(3) show ?thesis
    by (simp add: mesh_defs eval_nat_numeral upt_rec)
qed

lemma mesh5:
  assumes "distinct [a, b, d, e, f]" "[] \<notin> set [a, b, d, e, f]" "c \<noteq> []"
  shows "meshSettles 37 c [a, b, d, e, f]"
proof -
  from assms(1) have ne: "a \<noteq> b" "b \<noteq> a" "a \<noteq> d" "d \<noteq> a" "b \<noteq> d" "d \<noteq> b"
    "a \<noteq> e" "e \<noteq> a" "b \<noteq> e" "e \<noteq> b" "d \<noteq> e" "e \<noteq> d"
    "a \<noteq> f" "f \<noteq> a" "b \<noteq> f" "f \<noteq> b" "d \<noteq> f" "f \<noteq> d" "e \<noteq> f" "f \<noteq> e"
    by auto
  from assms(2) have "a \<noteq> []" "b \<noteq> []" "d \<noteq> []" "e \<noteq> []" "f \<noteq> []"
    by auto
  with ne assms(3) show ?thesis
    by (simp add: mesh_defs eval_nat_numeral upt_rec)
qed

lemma length2: "length us = 2 \<Longrightarrow> \<exists>a b. us = [a, b]"
  by (auto simp: numeral_2_eq_2 length_Suc_conv)

lemma length3: "length us = 3 \<Longrightarrow> \<exists>a b d. us = [a, b, d]"
  by (auto simp: numeral_3_eq_3 length_Suc_conv)

lemma length5: "length us = 5 \<Longrightarrow> \<exists>a b d e f. us = [a, b, d, e, f]"
  by (auto simp: eval_nat_numeral length_Suc_conv)

lemma meshSettles_cases:
  assumes "distinct us" and "[] \<notin> set us" and "c \<noteq> []" and "length us \<in> {2, 3, 5}"
  shows "meshSettles 37 c us"
proof -
  from assms(4) consider "length us = 2" | "length us = 3" | "length us = 5" by auto
  then show ?thesis
  proof cases
    case 1
    then obtain a b where "us = [a, b]" using length2 by blast
    with assms show ?thesis using mesh2 by blast
  next
    case 2
    then obtain a b d where "us = [a, b, d]" using length3 by blast
    with assms show ?thesis using mesh3 by blast
  next
    case 3
    then obtain a b d e f where "us = [a, b, d, e, f]" using length5 by blast
    with assms show ?thesis using mesh5 by blast
  qed
qed

text \<open>
  Claim C2. Two, three or five different identities, each with a session on a socket of
  its own, join the same channel one after the other; after each join the envelopes are
  delivered, oldest first, until none is in flight. The run ends within 37 deliveries
  for each join. At the end every two of the sessions have exactly one link, and it is
  connected: each registry holds one connection for the other identity, the two
  connections have completed the offer and answer handshake with each other and taken
  each other's candidate, neither is closed, and neither session has ever created
  another connection object for the other identity.
\<close>

theorem mesh_complete_after_sequential_joins:
  assumes "distinct us" and "[] \<notin> set us" and "c \<noteq> []" and "length us \<in> {2, 3, 5}"
  shows "\<exists>m. settle 37 c us = Some m \<and> inflight m = []
           \<and> map (\<lambda>x. mgr_userId (snd x)) (clients m) = us
           \<and> (\<forall>a \<in> set (map snd (clients m)). \<forall>b \<in> set (map snd (clients m)).
                 mgr_userId a \<noteq> mgr_userId b
                 \<longrightarrow> connectedLink a b \<and> createdFor a (mgr_userId b) = 1)"
proof -
  from assms have "meshSettles 37 c us" by (rule meshSettles_cases)
  then obtain m where m: "settle 37 c us = Some m" "inflight m = []"
    "map (\<lambda>x. mgr_userId (snd x)) (clients m) = us" "meshComplete (map snd (clients m))"
    by (auto simp: meshSettles_def split: option.splits)
  from m(4) have "\<forall>a \<in> set (map snd (clients m)). \<forall>b \<in> set (map snd (clients m)).
      mgr_userId a \<noteq> mgr_userId b \<longrightarrow> connectedLink a b \<and> createdFor a (mgr_userId b) = 1"
    unfolding meshComplete_def list_all_iff by blast
  with m(1-3) show ?thesis by blast
qed

theorem mesh_complete_after_sequential_joins_witness:
  "distinct [''u1'', ''u2'', ''u3''] \<and> [] \<notin> set [''u1'', ''u2'', ''u3''] \<and> ''general'' \<noteq> []
   \<and> length [''u1'', ''u2'', ''u3''] = 3
   \<and> (\<exists>m. settle 37 ''general'' [''u1'', ''u2'', ''u3''] = Some m \<and> inflight m = []
          \<and> map (\<lambda>x. mgr_userId (snd x)) (clients m) = [''u1'', ''u2'', ''u3'']
          \<and> list_all (\<lambda>a. list_all (\<lambda>b. mgr_userId a = mgr_userId b
                  \<or> (connectedLink a b \<and> createdFor a (mgr_userId b) = 1))
                (map snd (clients m))) (map snd (clients m)))"
proof -
  have h: "distinct [''u1'', ''u2'', ''u3'']" "[] \<notin> set [''u1'', ''u2'', ''u3'']" "''general'' \<noteq> []"
    "length [''u1'', ''u2'', ''u3''] \<in> {2, 3, 5}"
    by simp_all
  from mesh_complete_after_sequential_joins [OF h]
  obtain m where m: "settle 37 ''general'' [''u1'', ''u2'', ''u3''] = Some m \<and> inflight m = []
    \<and> map (\<lambda>x. mgr_userId (snd x)) (clients m) = [''u1'', ''u2'', ''u3'']
    \<and> (\<forall>a \<in> set (map snd (clients m)). \<forall>b \<in> set (map snd (clients m)).
       mgr_userId a \<noteq> mgr_userId b \<longrightarrow> connectedLink a b \<and> createdFor a (mgr_userId b) = 1)"
    ..
  then have m1: "settle 37 ''general'' [''u1'', ''u2'', ''u3''] = Some m"
    and m2: "inflight m = []"
    and m3: "map (\<lambda>x. mgr_userId (snd x)) (clients m) = [''u1'', ''u2'', ''u3'']"
    and m4: "\<forall>a \<in> set (map snd (clients m)). \<forall>b \<in> set (map snd (clients m)).
       mgr_userId a \<noteq> mgr_userId b \<longrightarrow> connectedLink a b \<and> createdFor a (mgr_userId b) = 1"
    by (rule conjunct1, rule conjunct2 [THEN conjunct1],
        rule conjunct2 [THEN conjunct2, THEN conjunct1],
        rule conjunct2 [THEN conjunct2, THEN conjunct2])
  from m4 have l4: "list_all (\<lambda>a. list_all (\<lambda>b. mgr_userId a = mgr_userId b
                  \<or> (connectedLink a b \<and> createdFor a (mgr_userId b) = 1))
                (map snd (clients m))) (map snd (clients m))"
    unfolding list_all_iff by blast
  have ex: "\<exists>m. settle 37 ''general'' [''u1'', ''u2'', ''u3''] = Some m \<and> inflight m = []
    \<and> map (\<lambda>x. mgr_userId (snd x)) (clients m) = [''u1'', ''u2'', ''u3'']
    \<and> list_all (\<lambda>a. list_all (\<lambda>b. mgr_userId a = mgr_userId b
                  \<or> (connectedLink a b \<and> createdFor a (mgr_userId b) = 1))
                (map snd (clients m))) (map snd (clients m))"
    by (intro exI [of _ m] conjI m1 m2 m3 l4)
  have l: "length [''u1'', ''u2'', ''u3''] = 3" by simp
  show ?thesis
    by (intro conjI h(1) h(2) h(3) l ex)
qed

end
